(* ===== verification/Prelude.thy ===== *)
theory Prelude
  imports Main
begin

text \<open>
  Shared vocabulary of the development: the JSON-like values a request body
  carries (what pydantic receives after the HTTP layer has parsed the body),
  Python truthiness, pydantic's structured validation errors, the result type of
  a validation step, and the combinators with which pydantic validates the
  fields of a model one after the other and collects every field's error.
  The collection \<open>validate_simps\<close> gathers the rewrite rules that evaluate
  the validators of the component theories on concrete inputs.
\<close>

named_theorems validate_simps "rules evaluating the schema validators"

section \<open>JSON values and request bodies\<close>

text \<open>
  A request body is a JSON document; Python sees it as nested dicts, lists,
  strings, numbers, booleans and \<open>None\<close>. Floats are not distinguished from
  integers here: no field of the schemas accepts a number.
\<close>

datatype jval =
    JNull
  | JBool bool
  | JNum int
  | JStr string
  | JList "jval list"
  | JObj "(string \<times> jval) list"

text \<open>A Python dict built from key/value pairs keeps the last value of a key.\<close>

type_synonym payload = "string \<rightharpoonup> jval"

definition dict_of :: "(string \<times> jval) list \<Rightarrow> payload" where
  "dict_of kvs = map_of (rev kvs)"

text \<open>\<open>d.get(k)\<close>: the value stored under \<open>k\<close>, or \<open>None\<close>.\<close>

definition dict_get :: "payload \<Rightarrow> string \<Rightarrow> jval" where
  "dict_get d k = (case d k of None \<Rightarrow> JNull | Some v \<Rightarrow> v)"

text \<open>Python's \<open>bool(v)\<close> on JSON values: empty containers, zero and
  \<open>None\<close> are false.\<close>

fun truthy :: "jval \<Rightarrow> bool" where
  "truthy JNull = False"
| "truthy (JBool b) = b"
| "truthy (JNum n) = (n \<noteq> 0)"
| "truthy (JStr s) = (s \<noteq> [])"
| "truthy (JList xs) = (xs \<noteq> [])"
| "truthy (JObj kvs) = (kvs \<noteq> [])"

section \<open>Validation errors\<close>

text \<open>
  A pydantic \<open>ValidationError\<close> is a list of line errors; each names the
  location of the offending value (a path of keys and list indices, empty for
  a model-level validator) and the kind of failure. \<open>ValueError msg\<close> is a
  \<open>ValueError(msg)\<close> raised by a validator of the source;
  \<open>CustomValueError msg\<close> is a \<open>PydanticCustomError('value_error', msg)\<close>,
  which a library type such as \<open>EmailStr\<close> raises. Both have the error type
  \<open>value_error\<close>; they differ in how the message is rendered.
\<close>

datatype loc_item = Key string | Idx nat

datatype err_type =
    Missing
  | ModelType
  | StringType
  | ListType
  | StringTooShort nat
  | StringTooLong nat
  | EnumErr "string list"
  | ValueError string
  | CustomValueError string

record verr =
  eloc :: "loc_item list"
  etype :: err_type

type_synonym 'a vresult = "verr list + 'a"

text \<open>
  What calling a schema can end in: a \<open>ValidationError\<close> with its line
  errors, or another exception escaping a validator (pydantic converts only
  \<open>ValueError\<close> and \<open>AssertionError\<close> raised inside validators).
\<close>

datatype exc = ValidationErr "verr list" | AttributeErr string

type_synonym 'a outcome = "exc + 'a"

definition err_at :: "string \<Rightarrow> err_type \<Rightarrow> verr list" where
  "err_at k t = [\<lparr>eloc = [Key k], etype = t\<rparr>]"

text \<open>Errors of a nested value are reported under the key or index that
  leads to it.\<close>

definition under :: "loc_item \<Rightarrow> verr \<Rightarrow> verr" where
  "under l e = e\<lparr>eloc := l # eloc e\<rparr>"

section \<open>Combinators\<close>

text \<open>A validator that runs only when the previous stage succeeded
  (pydantic runs an after-validator only on a value that passed its type
  and constraint checks).\<close>

fun sbind :: "'a vresult \<Rightarrow> ('a \<Rightarrow> 'b vresult) \<Rightarrow> 'b vresult" where
  "sbind (Inl es) f = Inl es"
| "sbind (Inr a) f = f a"

text \<open>Two fields validated one after the other: both are always checked and
  the errors of both are reported, in field order.\<close>

fun both :: "'a vresult \<Rightarrow> 'b vresult \<Rightarrow> ('a \<times> 'b) vresult" where
  "both (Inr a) (Inr b) = Inr (a, b)"
| "both (Inl e) (Inr b) = Inl e"
| "both (Inr a) (Inl e) = Inl e"
| "both (Inl e1) (Inl e2) = Inl (e1 @ e2)"

text \<open>A failed validation step always reports at least one error.\<close>

definition reports :: "'a vresult \<Rightarrow> bool" where
  "reports r \<longleftrightarrow> (case r of Inl es \<Rightarrow> es \<noteq> [] | Inr _ \<Rightarrow> True)"

text \<open>The set of locations a validation step reports errors at.\<close>

definition err_locs :: "'a vresult \<Rightarrow> loc_item list set" where
  "err_locs r = (case r of Inl es \<Rightarrow> eloc ` set es | Inr _ \<Rightarrow> {})"

text \<open>The kinds of error a validation step reports.\<close>

definition err_types :: "'a vresult \<Rightarrow> err_type set" where
  "err_types r = (case r of Inl es \<Rightarrow> etype ` set es | Inr _ \<Rightarrow> {})"

text \<open>The keys of a JSON object.\<close>

definition obj_keys :: "jval \<Rightarrow> string set" where
  "obj_keys v = (case v of JObj kvs \<Rightarrow> fst ` set kvs | _ \<Rightarrow> {})"

section \<open>Generic lemmas\<close>

lemma sbind_Inr_iff [simp]:
  "sbind r f = Inr b \<longleftrightarrow> (\<exists>a. r = Inr a \<and> f a = Inr b)"
  by (cases r) auto

lemma both_Inr_iff [simp]:
  "both r1 r2 = Inr p \<longleftrightarrow> (\<exists>a b. r1 = Inr a \<and> r2 = Inr b \<and> p = (a, b))"
  by (cases r1; cases r2) auto

lemma map_sum_id_Inr_iff [simp]: "map_sum id f r = Inr b \<longleftrightarrow> (\<exists>a. r = Inr a \<and> b = f a)"
  by (cases r) auto

lemma map_sum_id_Inl_iff [simp]: "map_sum id f r = Inl es \<longleftrightarrow> r = Inl es"
  by (cases r) auto

lemma map_sum_errs_Inr_iff [simp]: "map_sum g id r = Inr a \<longleftrightarrow> r = Inr a"
  by (cases r) auto

lemma both_Inr_Inr [simp]: "both (Inr a) (Inr b) = Inr (a, b)"
  by simp

lemma both_isl [simp]: "isl (both r1 r2) \<longleftrightarrow> isl r1 \<or> isl r2"
  by (cases r1; cases r2) auto

lemma reports_sbind [intro]:
  "reports r \<Longrightarrow> (\<And>a. reports (f a)) \<Longrightarrow> reports (sbind r f)"
  by (cases r) (auto simp: reports_def)

lemma reports_both [intro]:
  "reports r1 \<Longrightarrow> reports r2 \<Longrightarrow> reports (both r1 r2)"
  by (cases r1; cases r2) (auto simp: reports_def)

lemma reports_Inr [simp, intro]: "reports (Inr a)"
  by (simp add: reports_def)

lemma reports_map_sum [intro]: "reports r \<Longrightarrow> reports (map_sum id f r)"
  by (cases r) (auto simp: reports_def)

lemma reports_err_at [simp, intro]: "reports (Inl (err_at k t))"
  by (simp add: reports_def err_at_def)

lemma err_locs_sbind:
  "err_locs (sbind r f) \<subseteq> err_locs r \<union> (\<Union>a. err_locs (f a))"
  by (cases r) (auto simp: err_locs_def)

lemma err_locs_both [simp]:
  "err_locs (both r1 r2) = err_locs r1 \<union> err_locs r2"
  by (cases r1; cases r2) (auto simp: err_locs_def)

lemma err_locs_map_sum [simp]: "err_locs (map_sum id f r) = err_locs r"
  by (cases r) (auto simp: err_locs_def)

lemma err_locs_Inr [simp]: "err_locs (Inr a) = {}"
  by (simp add: err_locs_def)

lemma err_locs_err_at [simp]: "err_locs (Inl (err_at k t)) = {[Key k]}"
  by (simp add: err_locs_def err_at_def)

lemma err_types_sbind_sub:
  "err_types r \<subseteq> A \<Longrightarrow> (\<And>a. err_types (f a) \<subseteq> A) \<Longrightarrow> err_types (sbind r f) \<subseteq> A"
  by (cases r) (auto simp: err_types_def)

lemma err_types_both [simp]: "err_types (both r1 r2) = err_types r1 \<union> err_types r2"
  by (cases r1; cases r2) (auto simp: err_types_def)

lemma err_types_map_sum [simp]: "err_types (map_sum id f r) = err_types r"
  by (cases r) (auto simp: err_types_def)

lemma err_types_Inr [simp]: "err_types (Inr a) = {}"
  by (simp add: err_types_def)

lemma err_types_err_at [simp]: "err_types (Inl (err_at k t)) = {t}"
  by (simp add: err_types_def err_at_def)

lemma dict_of_snoc [simp]: "dict_of (kvs @ [(k, v)]) = (dict_of kvs)(k \<mapsto> v)"
  by (simp add: dict_of_def)

lemma dict_get_Some [simp]: "d k = Some v \<Longrightarrow> dict_get d k = v"
  by (simp add: dict_get_def)

lemma dict_get_None [simp]: "d k = None \<Longrightarrow> dict_get d k = JNull"
  by (simp add: dict_get_def)

lemma dict_of_filter: "dict_of (filter (\<lambda>p. fst p \<noteq> k) kvs) = (dict_of kvs)(k := None)"
  by (induction kvs rule: rev_induct) (auto simp: dict_of_def fun_eq_iff)

lemma dict_get_null_absent: "dict_get (d(k \<mapsto> JNull)) k' = dict_get (d(k := None)) k'"
  by (simp add: dict_get_def)

lemma isl_map_sum_iff [simp]: "isl (map_sum f g r) = isl r"
  by (cases r) simp_all

end
