(* ===== verification/Regex.thy ===== *)
theory Regex
  imports Prelude
begin

text \<open>
  The part of Python's \<open>re\<close> module the schemas use: character classes,
  \<open>.\<close>, concatenation, alternation, \<open>*\<close>, \<open>{m,n}\<close>, lookahead \<open>(?=\<dots>)\<close>
  and the anchors \<open>^\<close> and \<open>$\<close>, and \<open>re.fullmatch\<close>. The semantics is the
  inductive relation \<open>rmatch s r w w'\<close>: matching \<open>r\<close> inside the subject
  \<open>s\<close>, at the position where \<open>w\<close> is what is left of \<open>s\<close>, can stop where
  \<open>w'\<close> is left. A position is named by the suffix that follows it, so
  \<open>^\<close> (only at position 0 without \<open>re.MULTILINE\<close>), \<open>$\<close> (at the end, or
  before a final newline) and a lookahead (a match of its body that consumes
  nothing) are expressed directly. Python's backtracking tries every way to
  match, so \<open>re.fullmatch\<close> succeeds exactly when some derivation spans the
  whole subject.

  For the fragment without lookahead and anchors (\<open>pure\<close>) the relation is
  the usual language semantics \<open>lang\<close> (lemma \<open>rmatch_pure_iff\<close>), which
  the component proofs use.
\<close>

section \<open>Syntax\<close>

text \<open>A class \<open>[\<dots>]\<close> is the list of its inclusive ranges; a single
  character \<open>x\<close> is the range \<open>(x, x)\<close>.\<close>

datatype rx =
    Cls "(char \<times> char) list"
  | Dot
  | Eps
  | Seq rx rx
  | Alt rx rx
  | Star rx
  | Rep rx nat nat
  | Look rx
  | Bol
  | Eol

definition in_cls :: "(char \<times> char) list \<Rightarrow> char \<Rightarrow> bool" where
  "in_cls rs c \<longleftrightarrow>
     list_ex (\<lambda>(lo, hi). (of_char lo :: nat) \<le> of_char c \<and> (of_char c :: nat) \<le> of_char hi) rs"

text \<open>\<open>r?\<close> and \<open>r+\<close>, and a sequence of pattern items written one after
  the other.\<close>

definition re_opt :: "rx \<Rightarrow> rx" where
  "re_opt r = Alt r Eps"

definition re_plus :: "rx \<Rightarrow> rx" where
  "re_plus r = Seq r (Star r)"

fun seqs :: "rx list \<Rightarrow> rx" where
  "seqs [] = Eps"
| "seqs [r] = r"
| "seqs (r # rs) = Seq r (seqs rs)"

section \<open>Matching semantics\<close>

definition newline :: char where
  "newline = CHR 0x0A"

inductive rmatch :: "string \<Rightarrow> rx \<Rightarrow> string \<Rightarrow> string \<Rightarrow> bool" for s :: string where
  cls: "in_cls rs c \<Longrightarrow> rmatch s (Cls rs) (c # w) w"
| dot: "c \<noteq> newline \<Longrightarrow> rmatch s Dot (c # w) w"
| eps: "rmatch s Eps w w"
| seq: "rmatch s a w w1 \<Longrightarrow> rmatch s b w1 w2 \<Longrightarrow> rmatch s (Seq a b) w w2"
| altl: "rmatch s a w w' \<Longrightarrow> rmatch s (Alt a b) w w'"
| altr: "rmatch s b w w' \<Longrightarrow> rmatch s (Alt a b) w w'"
| star0: "rmatch s (Star r) w w"
| starS: "rmatch s r w w1 \<Longrightarrow> rmatch s (Star r) w1 w2 \<Longrightarrow> rmatch s (Star r) w w2"
| rep0: "rmatch s (Rep r 0 n) w w"
| repS: "0 < n \<Longrightarrow> rmatch s r w w1 \<Longrightarrow> rmatch s (Rep r (m - 1) (n - 1)) w1 w2 \<Longrightarrow>
          rmatch s (Rep r m n) w w2"
| look: "rmatch s r w w1 \<Longrightarrow> rmatch s (Look r) w w"
| bol: "length w = length s \<Longrightarrow> rmatch s Bol w w"
| eol: "w = [] \<or> w = [newline] \<Longrightarrow> rmatch s Eol w w"

text \<open>\<open>re.fullmatch(r, s)\<close> returns a match object.\<close>

definition fullmatch :: "rx \<Rightarrow> string \<Rightarrow> bool" where
  "fullmatch r s \<longleftrightarrow> rmatch s r s []"

section \<open>Language semantics of the pure fragment\<close>

definition conc :: "string set \<Rightarrow> string set \<Rightarrow> string set" where
  "conc A B = {u @ v |u v. u \<in> A \<and> v \<in> B}"

inductive_set kstar :: "string set \<Rightarrow> string set" for A :: "string set" where
  kstar_nil [simp, intro]: "[] \<in> kstar A"
| kstar_app [intro]: "u \<in> A \<Longrightarrow> v \<in> kstar A \<Longrightarrow> u @ v \<in> kstar A"

primrec lpow :: "nat \<Rightarrow> string set \<Rightarrow> string set" where
  "lpow 0 A = {[]}"
| "lpow (Suc k) A = conc A (lpow k A)"

fun pure :: "rx \<Rightarrow> bool" where
  "pure (Seq a b) = (pure a \<and> pure b)"
| "pure (Alt a b) = (pure a \<and> pure b)"
| "pure (Star r) = pure r"
| "pure (Rep r m n) = pure r"
| "pure (Look r) = False"
| "pure Bol = False"
| "pure Eol = False"
| "pure _ = True"

primrec lang :: "rx \<Rightarrow> string set" where
  "lang (Cls rs) = {[c] |c. in_cls rs c}"
| "lang Dot = {[c] |c. c \<noteq> newline}"
| "lang Eps = {[]}"
| "lang (Seq a b) = conc (lang a) (lang b)"
| "lang (Alt a b) = lang a \<union> lang b"
| "lang (Star r) = kstar (lang r)"
| "lang (Rep r m n) = (\<Union>k \<in> {m..n}. lpow k (lang r))"
| "lang (Look r) = {[]}"
| "lang Bol = {[]}"
| "lang Eol = {[]}"

section \<open>Lemmas\<close>

inductive_simps rmatch_Seq_iff: "rmatch s (Seq a b) w w2"
inductive_simps rmatch_Alt_iff: "rmatch s (Alt a b) w w'"
inductive_simps rmatch_Eps_iff: "rmatch s Eps w w'"
inductive_simps rmatch_Bol_iff: "rmatch s Bol w w'"
inductive_simps rmatch_Eol_iff: "rmatch s Eol w w'"
inductive_simps rmatch_Look_iff: "rmatch s (Look r) w w'"

lemmas rmatch_simps [simp] =
  rmatch_Seq_iff rmatch_Alt_iff rmatch_Eps_iff rmatch_Bol_iff rmatch_Eol_iff rmatch_Look_iff

lemma rmatch_suffix: "rmatch s r w w' \<Longrightarrow> \<exists>u. w = u @ w'"
  by (induction rule: rmatch.induct) auto

lemma rmatch_lang: "rmatch s r w w' \<Longrightarrow> pure r \<Longrightarrow> \<exists>u. w = u @ w' \<and> u \<in> lang r"
proof (induction rule: rmatch.induct)
  case (seq a w w1 b w2)
  then show ?case by (fastforce simp: conc_def)
next
  case (starS r w w1 w2)
  then show ?case by fastforce
next
  case (rep0 r n w)
  then show ?case by force
next
  case (repS n r w w1 m w2)
  then obtain u v k where "w = u @ w1" "u \<in> lang r" "w1 = v @ w2" "v \<in> lpow k (lang r)"
    "m - 1 \<le> k" "k \<le> n - 1" by auto
  moreover from repS.hyps \<open>m - 1 \<le> k\<close> \<open>k \<le> n - 1\<close> have "Suc k \<in> {m..n}" by auto
  ultimately show ?case by (force simp: conc_def)
qed (auto)

lemma kstar_rmatch:
  assumes "u \<in> kstar (lang r)"
    and "\<And>u w'. u \<in> lang r \<Longrightarrow> rmatch s r (u @ w') w'"
  shows "rmatch s (Star r) (u @ w') w'"
  using assms(1)
proof (induction arbitrary: w')
  case kstar_nil
  then show ?case by (simp add: rmatch.star0)
next
  case (kstar_app u v)
  then show ?case using assms(2) by (auto intro: rmatch.starS)
qed

lemma lpow_rmatch:
  assumes "\<And>u w'. u \<in> lang r \<Longrightarrow> rmatch s r (u @ w') w'"
  shows "u \<in> lpow k (lang r) \<Longrightarrow> m \<le> k \<Longrightarrow> k \<le> n \<Longrightarrow> rmatch s (Rep r m n) (u @ w') w'"
proof (induction k arbitrary: u m n w')
  case 0
  then show ?case by (simp add: rmatch.rep0)
next
  case (Suc k)
  then obtain u1 u2 where "u = u1 @ u2" "u1 \<in> lang r" "u2 \<in> lpow k (lang r)"
    by (auto simp: conc_def)
  moreover have "rmatch s (Rep r (m - 1) (n - 1)) (u2 @ w') w'"
    using Suc by (simp add: \<open>u2 \<in> lpow k (lang r)\<close>)
  moreover have "rmatch s r (u1 @ u2 @ w') (u2 @ w')"
    using assms \<open>u1 \<in> lang r\<close> by blast
  moreover have "0 < n" using Suc.prems by simp
  ultimately show ?case by (simp add: rmatch.repS)
qed

lemma lang_rmatch: "pure r \<Longrightarrow> u \<in> lang r \<Longrightarrow> rmatch s r (u @ w') w'"
proof (induction r arbitrary: u w')
  case (Cls rs)
  then show ?case by (auto intro: rmatch.cls)
next
  case Dot
  then show ?case by (auto intro: rmatch.dot)
next
  case (Seq a b)
  then show ?case by (fastforce simp: conc_def)
next
  case (Star r)
  then show ?case by (auto intro: kstar_rmatch)
next
  case (Rep r m n)
  then show ?case by (auto intro: lpow_rmatch)
qed auto

lemma rmatch_pure_iff: "pure r \<Longrightarrow> rmatch s r w w' \<longleftrightarrow> (\<exists>u. w = u @ w' \<and> u \<in> lang r)"
  using rmatch_lang lang_rmatch by blast

lemma pure_seqs: "list_all pure rs \<Longrightarrow> pure (seqs rs)"
  by (induction rs rule: seqs.induct) auto

lemma rmatch_seqs_Eol:
  "rs \<noteq> [] \<Longrightarrow> rmatch s (seqs (rs @ [Eol])) w [] \<longleftrightarrow> rmatch s (seqs rs) w []"
proof (induction rs arbitrary: w rule: seqs.induct)
  case (2 r)
  then show ?case by auto
next
  case (3 r r' rs)
  then show ?case by auto
qed simp

lemma rmatch_seqs_Bol:
  "rs \<noteq> [] \<Longrightarrow> rmatch s (seqs (Bol # rs)) s w' \<longleftrightarrow> rmatch s (seqs rs) s w'"
  by (cases rs) auto

lemma fullmatch_anchored:
  assumes "rs \<noteq> []" "list_all pure rs"
  shows "fullmatch (seqs (Bol # rs @ [Eol])) s \<longleftrightarrow> s \<in> lang (seqs rs)"
proof -
  have "fullmatch (seqs (Bol # rs @ [Eol])) s \<longleftrightarrow> rmatch s (seqs (rs @ [Eol])) s []"
    unfolding fullmatch_def using assms(1) by (simp add: rmatch_seqs_Bol)
  also have "\<dots> \<longleftrightarrow> rmatch s (seqs rs) s []"
    using assms(1) by (rule rmatch_seqs_Eol)
  also have "\<dots> \<longleftrightarrow> s \<in> lang (seqs rs)"
    using assms(2) by (simp add: rmatch_pure_iff pure_seqs)
  finally show ?thesis .
qed

lemma kstar_singletons_sub: "u \<in> kstar {[c] |c. P c} \<Longrightarrow> list_all P u"
  by (induction rule: kstar.induct) auto
lemma kstar_singletons_sup: "list_all P u \<Longrightarrow> u \<in> kstar {[c] |c. P c}"
proof (induction u)
  case (Cons c u)
  have "[c] \<in> {[c] |c. P c}" using Cons.prems by simp
  moreover have "u \<in> kstar {[c] |c. P c}" using Cons by simp
  ultimately have "[c] @ u \<in> kstar {[c] |c. P c}" by (rule kstar_app)
  then show ?case by simp
qed simp
lemma concI [intro]: "u \<in> A \<Longrightarrow> v \<in> B \<Longrightarrow> u @ v \<in> conc A B"
  by (auto simp: conc_def)
lemma concE [elim]: "w \<in> conc A B \<Longrightarrow> (\<And>u v. w = u @ v \<Longrightarrow> u \<in> A \<Longrightarrow> v \<in> B \<Longrightarrow> P) \<Longrightarrow> P"
  by (auto simp: conc_def)
lemma lpow_singletons: "lpow k {[c] |c. P c} = {u. length u = k \<and> list_all P u}"
proof (induction k)
  case (Suc k)
  show ?case
  proof (intro set_eqI iffI)
    fix u assume "u \<in> lpow (Suc k) {[c] |c. P c}"
    then obtain c v where "u = [c] @ v" "P c" "v \<in> lpow k {[c] |c. P c}"
      by (auto simp: conc_def)
    then show "u \<in> {u. length u = Suc k \<and> list_all P u}" using Suc by simp
  next
    fix u assume "u \<in> {u. length u = Suc k \<and> list_all P u}"
    then obtain c v where "u = [c] @ v" "P c" "length v = k" "list_all P v"
      by (cases u) auto
    moreover have "[c] @ v \<in> conc {[c] |c. P c} (lpow k {[c] |c. P c})"
      using \<open>P c\<close> \<open>length v = k\<close> \<open>list_all P v\<close> Suc by (intro concI) auto
    ultimately show "u \<in> lpow (Suc k) {[c] |c. P c}" by simp
  qed
qed auto

lemma kstar_singletons: "kstar {[c] |c. P c} = {u. list_all P u}"
  using kstar_singletons_sub kstar_singletons_sup by blast

lemma lang_Star_Cls [simp]: "lang (Star (Cls rs)) = {u. list_all (in_cls rs) u}"
  by (simp add: kstar_singletons)

lemma lang_Rep_Cls [simp]:
  "lang (Rep (Cls rs) m n) = {u. m \<le> length u \<and> length u \<le> n \<and> list_all (in_cls rs) u}"
  by (auto simp: lpow_singletons)

lemma kstar_not_newline [simp]: "kstar {[c] |c. c \<noteq> newline} = {u. newline \<notin> set u}"
  by (auto simp: kstar_singletons list_all_iff)

lemma rmatch_dotstar_cls:
  "(\<exists>w'. rmatch s (Seq (Star Dot) (Cls rs)) w w') \<longleftrightarrow>
     (\<exists>u c w'. w = u @ c # w' \<and> newline \<notin> set u \<and> in_cls rs c)"
proof
  assume "\<exists>w'. rmatch s (Seq (Star Dot) (Cls rs)) w w'"
  then show "\<exists>u c w'. w = u @ c # w' \<and> newline \<notin> set u \<and> in_cls rs c"
    by (fastforce simp: rmatch_pure_iff)
next
  assume "\<exists>u c w'. w = u @ c # w' \<and> newline \<notin> set u \<and> in_cls rs c"
  then obtain u c w' where "w = u @ c # w'" "newline \<notin> set u" "in_cls rs c" by blast
  have "rmatch s (Star Dot) (u @ c # w') (c # w')"
    using \<open>newline \<notin> set u\<close> by (auto simp: rmatch_pure_iff)
  moreover have "rmatch s (Cls rs) (c # w') w'"
    using \<open>in_cls rs c\<close> by (rule rmatch.cls)
  ultimately have "rmatch s (Seq (Star Dot) (Cls rs)) w w'"
    using \<open>w = u @ c # w'\<close> by (auto intro: rmatch.seq)
  then show "\<exists>w'. rmatch s (Seq (Star Dot) (Cls rs)) w w'" ..
qed

end
