(* ===== verification/Validators.thy ===== *)
theory Validators
  imports Regex
begin

text \<open>
  The field validators of \<open>src/backend/src/schemas/user/schemas.py\<close> (spec
  section 4.1): the two regular expressions of the file, written as terms of
  \<open>Regex.rx\<close> item by item as they appear in the source, the error messages,
  and the \<open>field_validator\<close> methods that call \<open>re.fullmatch\<close> and raise
  \<open>ValueError\<close>. The username pattern is decided by a three-state scanner
  (\<open>uname_shape\<close>), the password pattern by a conjunction of counts and
  membership tests (\<open>password_strong\<close>); the lemmas
  \<open>fullmatch_username_re\<close> and \<open>fullmatch_password_re\<close> prove them equal to
  the regex semantics, which makes every validator executable by \<open>simp\<close>.

  Characters are bytes in HOL, so strings here are Python strings whose code
  points are below 256. In that range Python's \<open>\d\<close> (Unicode category Nd)
  is exactly \<open>[0-9]\<close>.
\<close>

section \<open>Character classes of the two patterns\<close>

definition letters_cls :: "(char \<times> char) list" where
  "letters_cls = [(CHR ''a'', CHR ''z''), (CHR ''A'', CHR ''Z'')]"

definition alnum_cls :: "(char \<times> char) list" where
  "alnum_cls = [(CHR ''a'', CHR ''z''), (CHR ''A'', CHR ''Z''), (CHR ''0'', CHR ''9'')]"

definition sep_cls :: "(char \<times> char) list" where
  "sep_cls = [(CHR ''.'', CHR ''.''), (CHR ''_'', CHR ''_'')]"

definition lower_cls :: "(char \<times> char) list" where
  "lower_cls = [(CHR ''a'', CHR ''z'')]"

definition upper_cls :: "(char \<times> char) list" where
  "upper_cls = [(CHR ''A'', CHR ''Z'')]"

definition digit_cls :: "(char \<times> char) list" where
  "digit_cls = [(CHR ''0'', CHR ''9'')]"

definition special_cls :: "(char \<times> char) list" where
  "special_cls = [(CHR ''@'', CHR ''@''), (CHR ''$'', CHR ''$''), (CHR ''!'', CHR ''!''),
     (CHR ''%'', CHR ''%''), (CHR ''*'', CHR ''*''), (CHR ''?'', CHR ''?''), (CHR ''&'', CHR ''&'')]"

definition pw_cls :: "(char \<times> char) list" where
  "pw_cls = [(CHR ''A'', CHR ''Z''), (CHR ''a'', CHR ''z''), (CHR ''0'', CHR ''9'')] @ special_cls"

section \<open>The patterns\<close>

text \<open>\<open>^[a-zA-Z][a-zA-Z0-9]*(?:[._]?[a-zA-Z0-9]+)*$\<close>\<close>

definition username_re :: rx where
  "username_re = seqs
     [Bol, Cls letters_cls, Star (Cls alnum_cls),
      Star (Seq (re_opt (Cls sep_cls)) (re_plus (Cls alnum_cls))), Eol]"

text \<open>\<open>^(?=.*[a-z])(?=.*[A-Z])(?=.*\d)(?=.*[@$!%*?&])[A-Za-z\d@$!%*?&]{8,64}$\<close>\<close>

definition password_re :: rx where
  "password_re = seqs
     [Bol, Look (Seq (Star Dot) (Cls lower_cls)), Look (Seq (Star Dot) (Cls upper_cls)),
      Look (Seq (Star Dot) (Cls digit_cls)), Look (Seq (Star Dot) (Cls special_cls)),
      Rep (Cls pw_cls) 8 64, Eol]"

definition username_msg :: string where
  "username_msg = ''Username is invalid. It cannot contain special characters and cannot be ended with: ., _''"

definition password_msg :: string where
  "password_msg = ''Password is invalid. It must contain at least: one lowercase letter, one upper case letter, one digit, on special character. Length: 8-64''"

section \<open>The field validators\<close>

text \<open>\<open>PasswordSchema.validate_password\<close>: a \<open>ValueError\<close> raised in a field
  validator is reported by pydantic at the field's location.\<close>

definition validate_password :: "string \<Rightarrow> string vresult" where
  "validate_password value =
     (if \<not> fullmatch password_re value then Inl (err_at ''password'' (ValueError password_msg))
      else Inr value)"

text \<open>\<open>UserBody.validate_username\<close>.\<close>

definition validate_username :: "string \<Rightarrow> string vresult" where
  "validate_username value =
     (if \<not> fullmatch username_re value then Inl (err_at ''username'' (ValueError username_msg))
      else Inr value)"

text \<open>\<open>LoginUserBody.validate_username\<close>, a copy of the one above.\<close>

definition validate_username_login :: "string \<Rightarrow> string vresult" where
  "validate_username_login value =
     (if \<not> fullmatch username_re value then Inl (err_at ''username'' (ValueError username_msg))
      else Inr value)"

text \<open>\<open>UpdateUserBody.validate_username\<close> and
  \<open>UpdateUserBody.validate_password\<close>: the optional fields pass \<open>None\<close>
  through.\<close>

definition validate_username_upd :: "string option \<Rightarrow> string option vresult" where
  "validate_username_upd value =
     (case value of
        Some v \<Rightarrow>
          if \<not> fullmatch username_re v then Inl (err_at ''username'' (ValueError username_msg))
          else Inr value
      | None \<Rightarrow> Inr value)"

definition validate_password_upd :: "string option \<Rightarrow> string option vresult" where
  "validate_password_upd value =
     (case value of
        Some v \<Rightarrow>
          if \<not> fullmatch password_re v then Inl (err_at ''password'' (ValueError password_msg))
          else Inr value
      | None \<Rightarrow> Inr value)"

section \<open>Executable readings of the patterns\<close>

definition is_alpha :: "char \<Rightarrow> bool" where "is_alpha = in_cls letters_cls"
definition is_alnum :: "char \<Rightarrow> bool" where "is_alnum = in_cls alnum_cls"
definition is_sep :: "char \<Rightarrow> bool" where "is_sep = in_cls sep_cls"
definition is_lower :: "char \<Rightarrow> bool" where "is_lower = in_cls lower_cls"
definition is_upper :: "char \<Rightarrow> bool" where "is_upper = in_cls upper_cls"
definition is_digit :: "char \<Rightarrow> bool" where "is_digit = in_cls digit_cls"
definition is_special :: "char \<Rightarrow> bool" where "is_special = in_cls special_cls"
definition is_pw_char :: "char \<Rightarrow> bool" where "is_pw_char = in_cls pw_cls"

text \<open>The username pattern as a scanner: after the first letter, a
  separator must be followed by a letter or digit, and the name may end only
  after a letter or digit.\<close>

fun uname_tail :: "string \<Rightarrow> bool" where
  "uname_tail [] = True"
| "uname_tail [c] = is_alnum c"
| "uname_tail (c # d # ds) =
     (if is_alnum c then uname_tail (d # ds) else is_sep c \<and> is_alnum d \<and> uname_tail ds)"

definition uname_shape :: "string \<Rightarrow> bool" where
  "uname_shape s = (case s of [] \<Rightarrow> False | c # w \<Rightarrow> is_alpha c \<and> uname_tail w)"

definition password_strong :: "string \<Rightarrow> bool" where
  "password_strong s \<longleftrightarrow>
     8 \<le> length s \<and> length s \<le> 64 \<and> list_all is_pw_char s \<and>
     list_ex is_lower s \<and> list_ex is_upper s \<and> list_ex is_digit s \<and> list_ex is_special s"

section \<open>Lemmas\<close>

lemmas class_defs = is_alpha_def is_alnum_def is_sep_def is_lower_def is_upper_def
  is_digit_def is_special_def is_pw_char_def letters_cls_def alnum_cls_def sep_cls_def
  lower_cls_def upper_cls_def digit_cls_def special_cls_def pw_cls_def in_cls_def

lemma sep_not_alnum [simp]: "is_sep c \<Longrightarrow> \<not> is_alnum c"
  by (auto simp: class_defs)

lemma alpha_alnum [simp]: "is_alpha c \<Longrightarrow> is_alnum c"
  by (auto simp: class_defs)

lemma newline_not_pw_char [simp]: "\<not> is_pw_char newline"
  by (simp add: class_defs newline_def)

subsection \<open>The password pattern\<close>

lemma split_list_ex:
  "newline \<notin> set s \<Longrightarrow>
     (\<exists>u c. (\<exists>w'. s = u @ c # w') \<and> newline \<notin> set u \<and> P c) \<longleftrightarrow> list_ex P s"
proof
  assume "\<exists>u c. (\<exists>w'. s = u @ c # w') \<and> newline \<notin> set u \<and> P c"
  then show "list_ex P s" by (auto simp: list_ex_iff)
next
  assume nl: "newline \<notin> set s" and "list_ex P s"
  then obtain c where "c \<in> set s" "P c" by (auto simp: list_ex_iff)
  then obtain u w' where "s = u @ c # w'" by (blast dest: split_list)
  with nl \<open>P c\<close> show "\<exists>u c. (\<exists>w'. s = u @ c # w') \<and> newline \<notin> set u \<and> P c" by auto
qed

lemma pw_no_newline: "list_all is_pw_char s \<Longrightarrow> newline \<notin> set s"
  by (auto simp: list_all_iff)

lemma rmatch_Look_dotstar:
  "rmatch s (Look (Seq (Star Dot) (Cls rs))) w w' \<longleftrightarrow>
     w' = w \<and> (\<exists>u c v. w = u @ c # v \<and> newline \<notin> set u \<and> in_cls rs c)"
  using rmatch_dotstar_cls [of s rs w] by (simp del: rmatch_Seq_iff)

lemma fullmatch_password_re [validate_simps]: "fullmatch password_re s \<longleftrightarrow> password_strong s"
proof -
  have "fullmatch password_re s \<longleftrightarrow>
      (\<exists>u c v. s = u @ c # v \<and> newline \<notin> set u \<and> in_cls lower_cls c) \<and>
      (\<exists>u c v. s = u @ c # v \<and> newline \<notin> set u \<and> in_cls upper_cls c) \<and>
      (\<exists>u c v. s = u @ c # v \<and> newline \<notin> set u \<and> in_cls digit_cls c) \<and>
      (\<exists>u c v. s = u @ c # v \<and> newline \<notin> set u \<and> in_cls special_cls c) \<and>
      8 \<le> length s \<and> length s \<le> 64 \<and> list_all is_pw_char s"
    by (auto simp: fullmatch_def password_re_def rmatch_Look_dotstar rmatch_pure_iff is_pw_char_def
        lpow_singletons simp del: rmatch_Look_iff)
  also have "\<dots> \<longleftrightarrow> password_strong s"
  proof (cases "list_all is_pw_char s")
    case True
    then have "newline \<notin> set s" by (rule pw_no_newline)
    then show ?thesis
      by (simp add: password_strong_def split_list_ex True is_lower_def is_upper_def
          is_digit_def is_special_def) blast
  next
    case False
    then show ?thesis by (simp add: password_strong_def)
  qed
  finally show ?thesis .
qed

subsection \<open>The username pattern\<close>

lemma uname_tail_alnums: "list_all is_alnum w \<Longrightarrow> uname_tail w"
  by (induction w rule: uname_tail.induct) auto

lemma uname_tail_append: "uname_tail u \<Longrightarrow> uname_tail v \<Longrightarrow> uname_tail (u @ v)"
proof (induction u rule: uname_tail.induct)
  case (2 c)
  then show ?case by (cases v) auto
qed (auto split: if_splits)

lemma ugroup_cases:
  assumes "w \<in> lang (Seq (re_opt (Cls sep_cls)) (re_plus (Cls alnum_cls)))"
  shows "(\<exists>a as. w = a # as \<and> is_alnum a \<and> list_all is_alnum as) \<or>
    (\<exists>c a as. w = c # a # as \<and> is_sep c \<and> is_alnum a \<and> list_all is_alnum as)"
  using assms by (auto simp: re_opt_def re_plus_def is_sep_def is_alnum_def kstar_singletons
      elim!: concE)

lemma ugroup_single: "is_alnum c \<Longrightarrow> [c] \<in> lang (Seq (re_opt (Cls sep_cls)) (re_plus (Cls alnum_cls)))"
proof -
  assume "is_alnum c"
  then have "[] @ ([c] @ []) \<in> lang (Seq (re_opt (Cls sep_cls)) (re_plus (Cls alnum_cls)))"
    unfolding re_opt_def re_plus_def lang.simps
    by (intro concI) (auto simp: is_alnum_def)
  then show ?thesis by simp
qed

lemma ugroup_pair:
  "is_sep c \<Longrightarrow> is_alnum d \<Longrightarrow> [c, d] \<in> lang (Seq (re_opt (Cls sep_cls)) (re_plus (Cls alnum_cls)))"
proof -
  assume "is_sep c" "is_alnum d"
  then have "[c] @ ([d] @ []) \<in> lang (Seq (re_opt (Cls sep_cls)) (re_plus (Cls alnum_cls)))"
    unfolding re_opt_def re_plus_def lang.simps
    by (intro concI) (auto simp: is_alnum_def is_sep_def)
  then show ?thesis by simp
qed

lemma ugroup_tail: "w \<in> lang (Seq (re_opt (Cls sep_cls)) (re_plus (Cls alnum_cls))) \<Longrightarrow> uname_tail w"
  by (drule ugroup_cases) (auto simp: uname_tail_alnums)

lemma kstar_ugroup_iff:
  "w \<in> kstar (lang (Seq (re_opt (Cls sep_cls)) (re_plus (Cls alnum_cls)))) \<longleftrightarrow> uname_tail w"
proof
  assume "w \<in> kstar (lang (Seq (re_opt (Cls sep_cls)) (re_plus (Cls alnum_cls))))"
  then show "uname_tail w"
  proof (induction rule: kstar.induct)
    case (kstar_app u v)
    then show ?case by (blast intro: uname_tail_append ugroup_tail)
  qed simp
next
  assume "uname_tail w"
  then show "w \<in> kstar (lang (Seq (re_opt (Cls sep_cls)) (re_plus (Cls alnum_cls))))"
  proof (induction w rule: uname_tail.induct)
    case (2 c)
    then have "[c] @ [] \<in> kstar (lang (Seq (re_opt (Cls sep_cls)) (re_plus (Cls alnum_cls))))"
      by (intro kstar_app ugroup_single kstar_nil) simp
    then show ?case by simp
  next
    case (3 c d ds)
    show ?case
    proof (cases "is_alnum c")
      case True
      with 3 have "[c] @ (d # ds) \<in> kstar (lang (Seq (re_opt (Cls sep_cls)) (re_plus (Cls alnum_cls))))"
        by (intro kstar_app ugroup_single) auto
      then show ?thesis by simp
    next
      case False
      with 3 have "[c, d] @ ds \<in> kstar (lang (Seq (re_opt (Cls sep_cls)) (re_plus (Cls alnum_cls))))"
        by (intro kstar_app ugroup_pair) auto
      then show ?thesis by simp
    qed
  qed simp
qed

lemma username_re_anchored:
  "fullmatch username_re s \<longleftrightarrow>
     s \<in> lang (seqs [Cls letters_cls, Star (Cls alnum_cls),
       Star (Seq (re_opt (Cls sep_cls)) (re_plus (Cls alnum_cls)))])"
proof -
  have "username_re = seqs (Bol # [Cls letters_cls, Star (Cls alnum_cls),
      Star (Seq (re_opt (Cls sep_cls)) (re_plus (Cls alnum_cls)))] @ [Eol])"
    by (simp add: username_re_def)
  moreover have "fullmatch (seqs (Bol # [Cls letters_cls, Star (Cls alnum_cls),
      Star (Seq (re_opt (Cls sep_cls)) (re_plus (Cls alnum_cls)))] @ [Eol])) s \<longleftrightarrow>
      s \<in> lang (seqs [Cls letters_cls, Star (Cls alnum_cls),
        Star (Seq (re_opt (Cls sep_cls)) (re_plus (Cls alnum_cls)))])"
    by (rule fullmatch_anchored) (simp_all add: re_opt_def re_plus_def)
  ultimately show ?thesis by (simp only:)
qed

lemma fullmatch_username_re [validate_simps]: "fullmatch username_re s \<longleftrightarrow> uname_shape s"
  unfolding username_re_anchored
proof
  assume "s \<in> lang (seqs [Cls letters_cls, Star (Cls alnum_cls),
      Star (Seq (re_opt (Cls sep_cls)) (re_plus (Cls alnum_cls)))])"
  then have "s \<in> conc (lang (Cls letters_cls)) (conc (lang (Star (Cls alnum_cls)))
      (lang (Star (Seq (re_opt (Cls sep_cls)) (re_plus (Cls alnum_cls))))))"
    by (simp only: seqs.simps lang.simps(4))
  then obtain c u v where "s = [c] @ u @ v" "is_alpha c" "list_all is_alnum u"
    and v: "v \<in> kstar (lang (Seq (re_opt (Cls sep_cls)) (re_plus (Cls alnum_cls))))"
    by (elim concE) (fastforce simp: is_alpha_def is_alnum_def kstar_singletons
        simp del: lang.simps(4))
  moreover from v have "uname_tail v" by (simp only: kstar_ugroup_iff)
  ultimately show "uname_shape s"
    by (simp add: uname_shape_def uname_tail_append uname_tail_alnums)
next
  assume "uname_shape s"
  then obtain c w where "s = [c] @ [] @ w" "is_alpha c" "uname_tail w"
    by (auto simp: uname_shape_def split: list.splits)
  moreover from \<open>uname_tail w\<close>
  have "w \<in> kstar (lang (Seq (re_opt (Cls sep_cls)) (re_plus (Cls alnum_cls))))"
    by (simp only: kstar_ugroup_iff)
  ultimately have "s \<in> conc (lang (Cls letters_cls)) (conc (lang (Star (Cls alnum_cls)))
      (lang (Star (Seq (re_opt (Cls sep_cls)) (re_plus (Cls alnum_cls))))))"
    by (simp only:) (intro concI; auto simp: is_alpha_def simp del: lang.simps(4))
  then show "s \<in> lang (seqs [Cls letters_cls, Star (Cls alnum_cls),
      Star (Seq (re_opt (Cls sep_cls)) (re_plus (Cls alnum_cls)))])"
    by (simp only: seqs.simps lang.simps(4))
qed

subsection \<open>Readable form of the username pattern\<close>

lemma sep_not_alpha [simp]: "is_sep c \<Longrightarrow> \<not> is_alpha c"
  by (auto simp: class_defs)

lemma uname_tail_iff:
  "uname_tail w \<longleftrightarrow> list_all (\<lambda>c. is_alnum c \<or> is_sep c) w \<and> (w \<noteq> [] \<longrightarrow> \<not> is_sep (last w)) \<and>
     list_all (\<lambda>(a, b). \<not> (is_sep a \<and> is_sep b)) (zip w (tl w))"
proof (induction w rule: uname_tail.induct)
  case (3 c d ds)
  then show ?case by (cases ds) auto
qed auto

lemma uname_shape_iff:
  "uname_shape s \<longleftrightarrow> s \<noteq> [] \<and> is_alpha (hd s) \<and> list_all (\<lambda>c. is_alnum c \<or> is_sep c) s \<and>
     \<not> is_sep (last s) \<and> list_all (\<lambda>(a, b). \<not> (is_sep a \<and> is_sep b)) (zip s (tl s))"
proof (cases s)
  case (Cons c w)
  then show ?thesis by (cases w) (auto simp: uname_shape_def uname_tail_iff)
qed (simp add: uname_shape_def)

lemma validate_password_Inr_iff [simp]:
  "validate_password v = Inr v' \<longleftrightarrow> v' = v \<and> password_strong v"
  by (auto simp: validate_password_def fullmatch_password_re)

lemma validate_username_Inr_iff [simp]:
  "validate_username v = Inr v' \<longleftrightarrow> v' = v \<and> uname_shape v"
  by (auto simp: validate_username_def fullmatch_username_re)

lemma reports_validate_password [simp, intro]: "reports (validate_password v)"
  by (simp add: validate_password_def)

lemma reports_validate_username [simp, intro]: "reports (validate_username v)"
  by (simp add: validate_username_def)

lemma err_locs_validate_password [simp]: "err_locs (validate_password v) \<subseteq> {[Key ''password'']}"
  by (simp add: validate_password_def)

lemma err_locs_validate_username [simp]: "err_locs (validate_username v) \<subseteq> {[Key ''username'']}"
  by (simp add: validate_username_def)

lemma err_types_validate_password [simp]:
  "err_types (validate_password v) \<subseteq> {ValueError password_msg}"
  by (simp add: validate_password_def)

lemma err_types_validate_username [simp]:
  "err_types (validate_username v) \<subseteq> {ValueError username_msg}"
  by (simp add: validate_username_def)

lemmas validator_defs [validate_simps] =
  validate_username_def validate_username_login_def validate_password_def
  validate_username_upd_def validate_password_upd_def

subsection \<open>Properties of the field validators\<close>

text \<open>C2. \<open>UserBody.validate_username\<close> accepts a name exactly when it is
  non-empty, starts with an ASCII letter, consists of ASCII letters, digits,
  \<open>.\<close> and \<open>_\<close>, does not end with \<open>.\<close> or \<open>_\<close>, and has no two
  separators in a row; otherwise it raises the username \<open>ValueError\<close>.\<close>

theorem validate_username_spec:
  "validate_username v =
     (if v \<noteq> [] \<and> is_alpha (hd v) \<and> (\<forall>c\<in>set v. is_alnum c \<or> is_sep c) \<and> \<not> is_sep (last v) \<and>
         (\<forall>(a, b)\<in>set (zip v (tl v)). \<not> (is_sep a \<and> is_sep b))
      then Inr v else Inl (err_at ''username'' (ValueError username_msg)))"
  by (simp add: validate_username_def fullmatch_username_re uname_shape_iff list_all_iff)

theorem validate_username_spec_witness:
  "validate_username ''mister_business'' = Inr ''mister_business'' \<and>
   validate_username ''_bad'' = Inl (err_at ''username'' (ValueError username_msg)) \<and>
   validate_username ''bad_'' = Inl (err_at ''username'' (ValueError username_msg)) \<and>
   validate_username ''9lives'' = Inl (err_at ''username'' (ValueError username_msg)) \<and>
   validate_username ''a..b'' = Inl (err_at ''username'' (ValueError username_msg))"
  using validate_username_spec [of "''mister_business''"] validate_username_spec [of "''_bad''"]
    validate_username_spec [of "''bad_''"] validate_username_spec [of "''9lives''"]
    validate_username_spec [of "''a..b''"]
  by (simp add: class_defs)

text \<open>C3. \<open>PasswordSchema.validate_password\<close> accepts a password exactly
  when it has 8 to 64 characters, all of them ASCII letters, digits or one of
  \<open>@$!%*?&\<close>, with at least one lowercase letter, one uppercase letter, one
  digit and one of those special characters; otherwise it raises the password
  \<open>ValueError\<close>.\<close>

theorem validate_password_spec:
  "validate_password v =
     (if 8 \<le> length v \<and> length v \<le> 64 \<and> (\<forall>c\<in>set v. is_pw_char c) \<and>
         (\<exists>c\<in>set v. is_lower c) \<and> (\<exists>c\<in>set v. is_upper c) \<and>
         (\<exists>c\<in>set v. is_digit c) \<and> (\<exists>c\<in>set v. is_special c)
      then Inr v else Inl (err_at ''password'' (ValueError password_msg)))"
  by (simp add: validate_password_def fullmatch_password_re password_strong_def list_all_iff
      list_ex_iff)

theorem validate_password_spec_witness:
  "validate_password ''Secret1!'' = Inr ''Secret1!'' \<and>
   validate_password ''secret1!'' = Inl (err_at ''password'' (ValueError password_msg)) \<and>
   validate_password ''Sec1!'' = Inl (err_at ''password'' (ValueError password_msg)) \<and>
   validate_password ''Secret12'' = Inl (err_at ''password'' (ValueError password_msg))"
  using validate_password_spec [of "''Secret1!''"] validate_password_spec [of "''secret1!''"]
    validate_password_spec [of "''Sec1!''"] validate_password_spec [of "''Secret12''"]
  by (simp add: class_defs)

text \<open>C16. The username and password validators are written out three and
  two times in the source (\<open>UserBody\<close>, \<open>LoginUserBody\<close>,
  \<open>UpdateUserBody\<close>); the copies agree: the login copy is the registration
  one, and the optional copies of \<open>UpdateUserBody\<close> act as the registration
  ones on a given value and pass \<open>None\<close> through.\<close>

theorem field_validator_copies_agree:
  "validate_username_login v = validate_username v \<and>
   validate_username_upd (Some v) = map_sum id Some (validate_username v) \<and>
   validate_password_upd (Some v) = map_sum id Some (validate_password v) \<and>
   validate_username_upd None = Inr None \<and> validate_password_upd None = Inr None"
  by (simp add: validate_username_login_def validate_username_def validate_username_upd_def
      validate_password_def validate_password_upd_def)

theorem field_validator_copies_agree_witness:
  "validate_username_login ''a.b'' = validate_username ''a.b'' \<and>
   validate_username_upd (Some ''a.b'') = map_sum id Some (validate_username ''a.b'') \<and>
   validate_password_upd (Some ''x'') = map_sum id Some (validate_password ''x'') \<and>
   validate_username_upd None = Inr None \<and> validate_password_upd None = Inr None"
  using field_validator_copies_agree [of "''a.b''"] field_validator_copies_agree [of "''x''"]
  by simp

end
