(* ===== verification/Pydantic.thy ===== *)
theory Pydantic
  imports Validators
begin

text \<open>
  How pydantic validates one field of a model and the model input itself, as
  the schemas of \<open>schemas.py\<close> use it:
  \<^item> a required field (\<open>Field(...)\<close>) that is absent is a \<open>missing\<close> error;
  \<^item> a \<open>str\<close> field accepts a JSON string only (\<open>string_type\<close> otherwise);
  \<^item> \<open>min_length\<close>/\<open>max_length\<close> are checked on the string before any
    after-validator of the field runs (\<open>string_too_short\<close>,
    \<open>string_too_long\<close>);
  \<^item> an \<open>Optional[str] = Field(None, ...)\<close> field that is absent takes its
    default without running validators; an explicit \<open>null\<close> reaches the
    validators as \<open>None\<close>;
  \<^item> \<open>EmailStr\<close> is a string checked and normalised by the
    \<open>email-validator\<close> package, \<open>RoleEnum\<close> an enumeration of values, and
    \<open>check_phone_number\<close> the phone routine of \<open>src/utils/validation.py\<close>.
    These three are collaborators outside this file; \<open>env\<close> bundles them, and
    every schema validator takes it as a parameter.
  \<^item> a model accepts a dict only (\<open>model_type\<close> otherwise); the fields are
    all validated and every error is reported (\<open>Prelude.both\<close>).
\<close>

record env =
  email_validate :: "string \<Rightarrow> string + string"
  check_phone_number :: "string \<Rightarrow> string + string"
  role_values :: "string list"
  page_fields :: "payload \<Rightarrow> jval vresult"

text \<open>\<open>email_validate e\<close> is \<open>Inr\<close> of the normalised address, or \<open>Inl\<close> of
  the reason the address is rejected; \<open>check_phone_number p\<close> is \<open>Inr\<close> of the
  canonical number, or \<open>Inl\<close> of the message of the \<open>ValueError\<close> it raises.
  \<open>page_fields d\<close> validates the fields \<open>UsersPublic\<close> inherits from
  \<open>PaginationSchema\<close> (\<open>src/schemas\<close>, outside the sources), whose names and
  types the sources do not show: \<open>Inr\<close> of the validated page metadata, or
  \<open>Inl\<close> of its line errors.\<close>

section \<open>Field types and constraints\<close>

definition str_type :: "string \<Rightarrow> jval \<Rightarrow> string vresult" where
  "str_type k v = (case v of JStr s \<Rightarrow> Inr s | _ \<Rightarrow> Inl (err_at k StringType))"

definition str_len :: "string \<Rightarrow> nat \<Rightarrow> nat \<Rightarrow> string \<Rightarrow> string vresult" where
  "str_len k lo hi s =
     (if length s < lo then Inl (err_at k (StringTooShort lo))
      else if hi < length s then Inl (err_at k (StringTooLong hi))
      else Inr s)"

definition email_type :: "env \<Rightarrow> string \<Rightarrow> jval \<Rightarrow> string vresult" where
  "email_type c k v =
     sbind (str_type k v)
       (\<lambda>s. case email_validate c s of
              Inl reason \<Rightarrow> Inl (err_at k (CustomValueError (''value is not a valid email address: '' @ reason)))
            | Inr e \<Rightarrow> Inr e)"

definition role_type :: "env \<Rightarrow> string \<Rightarrow> jval \<Rightarrow> string vresult" where
  "role_type c k v =
     (case v of
        JStr s \<Rightarrow> if s \<in> set (role_values c) then Inr s else Inl (err_at k (EnumErr (role_values c)))
      | _ \<Rightarrow> Inl (err_at k (EnumErr (role_values c))))"

section \<open>Required and optional fields\<close>

definition required :: "payload \<Rightarrow> string \<Rightarrow> (jval \<Rightarrow> 'a vresult) \<Rightarrow> 'a vresult" where
  "required d k f = (case d k of None \<Rightarrow> Inl (err_at k Missing) | Some v \<Rightarrow> f v)"

definition optional ::
  "payload \<Rightarrow> string \<Rightarrow> (string \<Rightarrow> string vresult) \<Rightarrow>
     (string option \<Rightarrow> string option vresult) \<Rightarrow> string option vresult" where
  "optional d k core after =
     (case d k of
        None \<Rightarrow> Inr None
      | Some JNull \<Rightarrow> after None
      | Some v \<Rightarrow> sbind (sbind (str_type k v) core) (\<lambda>s. after (Some s)))"

section \<open>Model input\<close>

text \<open>A model validates a dict; any other input is one \<open>model_type\<close> error
  at the model's own location.\<close>

definition as_model :: "(payload \<Rightarrow> 'a vresult) \<Rightarrow> jval \<Rightarrow> 'a vresult" where
  "as_model f v =
     (case v of JObj kvs \<Rightarrow> f (dict_of kvs) | _ \<Rightarrow> Inl [\<lparr>eloc = [], etype = ModelType\<rparr>])"

definition to_outcome :: "'a vresult \<Rightarrow> 'a outcome" where
  "to_outcome r = map_sum ValidationErr id r"

section \<open>An environment for evaluation\<close>

text \<open>A concrete choice of the collaborators, used to evaluate the schemas
  on sample bodies: an address needs an \<open>@\<close> and is kept as it is, a
  phone number needs a leading \<open>+\<close>, the roles are \<open>user\<close> and
  \<open>admin\<close>, and the page fields accept every body.\<close>

definition sample_env :: env where
  "sample_env =
     \<lparr>email_validate = (\<lambda>s. if CHR ''@'' \<in> set s then Inr s else Inl ''The email address is not valid.''),
      check_phone_number = (\<lambda>p. if p \<noteq> [] \<and> hd p = CHR ''+'' then Inr p else Inl ''Invalid phone number''),
      role_values = [''user'', ''admin''],
      page_fields = (\<lambda>d. Inr JNull)\<rparr>"

section \<open>Lemmas\<close>

lemma str_type_Inr_iff [simp]: "str_type k v = Inr s \<longleftrightarrow> v = JStr s"
  by (cases v) (auto simp: str_type_def)

lemma str_type_JStr [simp]: "str_type k (JStr s) = Inr s"
  by (simp add: str_type_def)

lemma str_len_Inr_iff [simp]:
  "str_len k lo hi s = Inr s' \<longleftrightarrow> s' = s \<and> lo \<le> length s \<and> length s \<le> hi"
  by (auto simp: str_len_def)

lemma required_Inr_iff [simp]:
  "required d k f = Inr a \<longleftrightarrow> (\<exists>v. d k = Some v \<and> f v = Inr a)"
  by (auto simp: required_def split: option.splits)

lemma required_Some [simp]: "d k = Some v \<Longrightarrow> required d k f = f v"
  by (simp add: required_def)

lemma required_None [simp]: "d k = None \<Longrightarrow> required d k f = Inl (err_at k Missing)"
  by (simp add: required_def)

lemma as_model_JObj [simp]: "as_model f (JObj kvs) = f (dict_of kvs)"
  by (simp add: as_model_def)

lemma as_model_Inr_iff:
  "as_model f v = Inr a \<longleftrightarrow> (\<exists>kvs. v = JObj kvs \<and> f (dict_of kvs) = Inr a)"
  by (cases v) (auto simp: as_model_def)

lemma to_outcome_Inr_iff [simp]: "to_outcome r = Inr a \<longleftrightarrow> r = Inr a"
  by (cases r) (auto simp: to_outcome_def)

lemma to_outcome_Inl_iff [simp]: "to_outcome r = Inl x \<longleftrightarrow> (\<exists>es. r = Inl es \<and> x = ValidationErr es)"
  by (cases r) (auto simp: to_outcome_def)

lemma email_type_Inr_iff [simp]:
  "email_type c k v = Inr e \<longleftrightarrow> (\<exists>s. v = JStr s \<and> email_validate c s = Inr e)"
  by (cases v; cases "email_validate c (case v of JStr s \<Rightarrow> s)") (auto simp: email_type_def str_type_def)

lemma role_type_Inr_iff [simp]:
  "role_type c k v = Inr r \<longleftrightarrow> v = JStr r \<and> r \<in> set (role_values c)"
  by (cases v) (auto simp: role_type_def)

lemma optional_Inr_iff:
  "optional d k core after = Inr r \<longleftrightarrow>
     (d k = None \<and> r = None) \<or> (d k = Some JNull \<and> after None = Inr r) \<or>
     (\<exists>s s'. d k = Some (JStr s) \<and> core s = Inr s' \<and> after (Some s') = Inr r)"
  by (auto simp: optional_def split: option.splits jval.splits)

lemma reports_str_type [simp, intro]: "reports (str_type k v)"
  by (cases v) (auto simp: str_type_def)

lemma reports_str_len [simp, intro]: "reports (str_len k lo hi s)"
  by (simp add: str_len_def)

lemma reports_email_type [simp, intro]: "reports (email_type c k v)"
  by (auto simp: email_type_def split: sum.splits)

lemma reports_role_type [simp, intro]: "reports (role_type c k v)"
  by (cases v) (auto simp: role_type_def)

lemma reports_required [intro]: "(\<And>v. reports (f v)) \<Longrightarrow> reports (required d k f)"
  by (auto simp: required_def split: option.splits)

lemma reports_optional [intro]:
  "(\<And>s. reports (core s)) \<Longrightarrow> (\<And>x. reports (after x)) \<Longrightarrow> reports (optional d k core after)"
  by (auto simp: optional_def split: option.splits jval.splits)

lemma reports_as_model [intro]: "(\<And>d. reports (f d)) \<Longrightarrow> reports (as_model f v)"
  by (cases v) (auto simp: as_model_def reports_def)

lemma err_locs_str_type [simp]: "err_locs (str_type k v) \<subseteq> {[Key k]}"
  by (cases v) (auto simp: str_type_def)

lemma err_locs_str_len [simp]: "err_locs (str_len k lo hi s) \<subseteq> {[Key k]}"
  by (simp add: str_len_def)

lemma err_locs_email_type [simp]: "err_locs (email_type c k v) \<subseteq> {[Key k]}"
  by (cases v) (auto simp: email_type_def str_type_def err_locs_def err_at_def split: sum.splits)

lemma err_locs_required:
  "(\<And>v. err_locs (f v) \<subseteq> {[Key k]}) \<Longrightarrow> err_locs (required d k f) \<subseteq> {[Key k]}"
  by (auto simp: required_def split: option.splits)

lemma err_locs_sbind_at:
  "err_locs r \<subseteq> A \<Longrightarrow> (\<And>a. err_locs (f a) \<subseteq> A) \<Longrightarrow> err_locs (sbind r f) \<subseteq> A"
  by (cases r) (auto simp: err_locs_def)

lemma err_locs_as_model:
  "(\<And>d. err_locs (f d) \<subseteq> A) \<Longrightarrow> err_locs (as_model f v) \<subseteq> insert [] A"
  by (cases v) (fastforce simp: as_model_def err_locs_def)+

lemma err_types_str_type [simp]: "err_types (str_type k v) \<subseteq> {StringType}"
  by (cases v) (auto simp: str_type_def)

lemma err_types_str_len [simp]: "err_types (str_len k lo hi s) \<subseteq> {StringTooShort lo, StringTooLong hi}"
  by (simp add: str_len_def)

lemma err_types_email_type:
  "err_types (email_type c k v) \<subseteq>
     {StringType} \<union> range (\<lambda>r. CustomValueError (''value is not a valid email address: '' @ r))"
  by (cases v) (auto simp: email_type_def str_type_def err_types_def err_at_def split: sum.splits)

lemma err_types_required:
  "(\<And>v. err_types (f v) \<subseteq> A) \<Longrightarrow> err_types (required d k f) \<subseteq> insert Missing A"
  by (auto simp: required_def split: option.splits)

text \<open>An error reported by the middle one of three fields survives the
  collection of the others' errors.\<close>

lemma both_keeps_error:
  assumes "etype e \<noteq> t" "t \<notin> err_types P" "t \<notin> err_types E"
  shows "\<exists>es. to_outcome (map_sum id f (both (both P (Inl [e])) E)) = Inl (ValidationErr es) \<and>
    e \<in> set es \<and> t \<notin> etype ` set es"
  using assms by (cases P; cases E) (auto simp: to_outcome_def err_types_def)

lemma err_types_optional:
  assumes "\<And>s. err_types (core s) \<subseteq> A" "\<And>x. err_types (after x) \<subseteq> A"
  shows "err_types (optional d k core after) \<subseteq> insert StringType A"
proof (cases "d k")
  case (Some v)
  have "err_types (sbind (sbind (str_type k v) core) (\<lambda>s. after (Some s))) \<subseteq> insert StringType A"
    using assms err_types_str_type [of k v] by (intro err_types_sbind_sub) blast+
  with Some assms show ?thesis by (cases v) (auto simp: optional_def)
qed (simp add: optional_def)

end
