(* ===== verification/Schemas.thy ===== *)
theory Schemas
  imports Pydantic
begin

text \<open>
  The schema classes of \<open>src/backend/src/schemas/user/schemas.py\<close>, one
  record of validated fields and one validator per class. A validator takes
  the collaborators (\<open>Pydantic.env\<close>) and the request or response body as a
  JSON value and returns what \<open>Model.model_validate(body)\<close> returns: the
  instance, or the exception it raises. Fields are validated in pydantic's
  order, which follows the reversed method resolution order of the class:
  \<open>UserBody(User, PasswordSchema)\<close> validates \<open>password\<close> first, then
  \<open>username\<close> and \<open>email\<close>.

  Classes that add no field of their own share the field set they inherit:
  \<open>CallbackGooglePublic\<close> and \<open>LoginUserPublic\<close> validate exactly the
  fields of \<open>UserSchema\<close> (record \<open>user_schema\<close>). The bases
  \<open>Schema\<close>, \<open>PublicSchema\<close> and \<open>PaginationSchema\<close> live in other modules;
  only the \<open>data\<close> field of \<open>UsersPublic\<close> is modelled.
\<close>

section \<open>UserSchema and PasswordSchema fields\<close>

record user_schema =
  us_username :: string
  us_email :: string

text \<open>\<open>username: str = Field(..., min_length=2, max_length=25)\<close>\<close>

definition username_field :: "payload \<Rightarrow> string vresult" where
  "username_field d =
     required d ''username'' (\<lambda>v. sbind (str_type ''username'' v) (str_len ''username'' 2 25))"

text \<open>\<open>email: EmailStr = Field(...)\<close>\<close>

definition email_field :: "env \<Rightarrow> payload \<Rightarrow> string vresult" where
  "email_field c d = required d ''email'' (email_type c ''email'')"

text \<open>\<open>password: str = Field(..., min_length=8, max_length=64)\<close> followed by
  the field validator \<open>validate_password\<close>.\<close>

definition password_field :: "payload \<Rightarrow> string vresult" where
  "password_field d =
     required d ''password'' (\<lambda>v. sbind (str_type ''password'' v) (str_len ''password'' 8 64))"

definition user_schema_fields :: "env \<Rightarrow> payload \<Rightarrow> user_schema vresult" where
  "user_schema_fields c d =
     map_sum id (\<lambda>(u, e). \<lparr>us_username = u, us_email = e\<rparr>) (both (username_field d) (email_field c d))"

section \<open>UserBody: registration input\<close>

record user_body =
  ub_username :: string
  ub_email :: string
  ub_password :: string

definition validate_UserBody :: "env \<Rightarrow> jval \<Rightarrow> user_body outcome" where
  "validate_UserBody c v = to_outcome (as_model (\<lambda>d.
     map_sum id (\<lambda>((p, u), e). \<lparr>ub_username = u, ub_email = e, ub_password = p\<rparr>)
       (both (both (sbind (password_field d) validate_password)
                   (sbind (username_field d) validate_username))
             (email_field c d))) v)"

section \<open>UserPublic and UsersPublic: user output\<close>

record user_public =
  up_username :: string
  up_email :: string
  up_role :: string
  up_phoneNumber :: "string option"

definition user_public_fields :: "env \<Rightarrow> payload \<Rightarrow> user_public vresult" where
  "user_public_fields c d =
     map_sum id (\<lambda>(((u, e), r), p). \<lparr>up_username = u, up_email = e, up_role = r, up_phoneNumber = p\<rparr>)
       (both (both (both (username_field d) (email_field c d))
                   (required d ''role'' (role_type c ''role'')))
             (optional d ''phoneNumber'' Inr Inr))"

definition validate_UserPublic :: "env \<Rightarrow> jval \<Rightarrow> user_public outcome" where
  "validate_UserPublic c v = to_outcome (as_model (user_public_fields c) v)"

text \<open>\<open>model_dump()\<close> of a public user, as serialised into the response.\<close>

definition dump_UserPublic :: "user_public \<Rightarrow> jval" where
  "dump_UserPublic u = JObj
     [(''username'', JStr (up_username u)), (''email'', JStr (up_email u)),
      (''role'', JStr (up_role u)),
      (''phoneNumber'', (case up_phoneNumber u of None \<Rightarrow> JNull | Some p \<Rightarrow> JStr p))]"

text \<open>\<open>data: list[UserPublic]\<close>: each item is validated as a \<open>UserPublic\<close>,
  its errors reported under \<open>data\<close> and its index.\<close>

fun user_list :: "env \<Rightarrow> nat \<Rightarrow> jval list \<Rightarrow> user_public list vresult" where
  "user_list c i [] = Inr []"
| "user_list c i (x # xs) =
     map_sum id (\<lambda>(u, us). u # us)
       (both (map_sum (map (under (Key ''data'') \<circ> under (Idx i))) id
                (as_model (user_public_fields c) x))
             (user_list c (Suc i) xs))"

record users_public =
  data :: "user_public list"
  page :: jval

definition users_data_field :: "env \<Rightarrow> payload \<Rightarrow> user_public list vresult" where
  "users_data_field c d =
     required d ''data'' (\<lambda>x. case x of JList xs \<Rightarrow> user_list c 0 xs
                                  | _ \<Rightarrow> Inl (err_at ''data'' ListType))"

text \<open>\<open>UsersPublic(PaginationSchema)\<close>: the inherited page fields are
  validated first (\<open>Pydantic.page_fields\<close>), then \<open>data\<close>; the errors of
  both are collected.\<close>

definition validate_UsersPublic :: "env \<Rightarrow> jval \<Rightarrow> users_public outcome" where
  "validate_UsersPublic c v =
     to_outcome (as_model (\<lambda>d. map_sum id (\<lambda>(m, us). \<lparr>data = us, page = m\<rparr>)
       (both (page_fields c d) (users_data_field c d))) v)"

text \<open>The index of the list item an error of \<open>UsersPublic.data\<close> is
  located at (its location is \<open>data\<close>, the index, then the item's field).\<close>

definition err_item :: "verr \<Rightarrow> nat" where
  "err_item e = (case eloc e of _ # Idx j # _ \<Rightarrow> j | _ \<Rightarrow> 0)"

section \<open>Lemmas\<close>

lemma reports_fields [simp, intro]:
  "reports (username_field d)" "reports (password_field d)" "reports (email_field c d)"
  by (auto simp: username_field_def password_field_def email_field_def)

lemma err_locs_fields [simp]:
  "err_locs (username_field d) \<subseteq> {[Key ''username'']}"
  "err_locs (password_field d) \<subseteq> {[Key ''password'']}"
  "err_locs (email_field c d) \<subseteq> {[Key ''email'']}"
  unfolding username_field_def password_field_def email_field_def
  by (intro err_locs_required err_locs_sbind_at err_locs_str_type err_locs_str_len
      err_locs_email_type)+

lemma reports_user_public_fields [simp, intro]: "reports (user_public_fields c d)"
  unfolding user_public_fields_def
  by (intro reports_map_sum reports_both reports_required reports_optional reports_fields
      reports_role_type reports_Inr)

lemma err_types_password_field:
  "err_types (sbind (password_field d) validate_password) \<subseteq>
     {Missing, StringType, StringTooShort 8, StringTooLong 64, ValueError password_msg}"
  unfolding password_field_def
  by (intro err_types_sbind_sub err_types_required order_trans [OF err_types_validate_password]
      order_trans [OF err_types_str_type] order_trans [OF err_types_str_len]) auto

lemma err_types_username_field:
  "err_types (sbind (username_field d) validate_username) \<subseteq>
     {Missing, StringType, StringTooShort 2, StringTooLong 25, ValueError username_msg}"
  unfolding username_field_def
  by (intro err_types_sbind_sub err_types_required order_trans [OF err_types_validate_username]
      order_trans [OF err_types_str_type] order_trans [OF err_types_str_len]) auto

lemma err_types_email_field:
  "err_types (email_field c d) \<subseteq>
     insert Missing ({StringType} \<union> range (\<lambda>r. CustomValueError (''value is not a valid email address: '' @ r)))"
  unfolding email_field_def by (intro err_types_required err_types_email_type)

lemma err_types_password_branch:
  "ValueError username_msg \<notin> err_types (sbind (password_field d) validate_password)"
  using err_types_password_field by (auto simp: username_msg_def password_msg_def)

lemma err_types_email_branch: "ValueError username_msg \<notin> err_types (email_field c d)"
  using err_types_email_field by (auto simp: username_msg_def)

lemma user_list_Inr_iff:
  "user_list c i xs = Inr us \<longleftrightarrow> list_all2 (\<lambda>x u. as_model (user_public_fields c) x = Inr u) xs us"
proof (induction xs arbitrary: i us)
  case (Cons x xs)
  then show ?case by (cases us) auto
qed auto

lemma user_list_errors:
  "user_list c i xs = Inl es \<Longrightarrow>
     es \<noteq> [] \<and> (\<forall>e\<in>set es. \<exists>j. i \<le> j \<and> j < i + length xs \<and> take 2 (eloc e) = [Key ''data'', Idx j])"
proof (induction xs arbitrary: i es)
  case (Cons x xs)
  have rep: "reports (as_model (user_public_fields c) x)" by blast
  show ?case
  proof (cases "as_model (user_public_fields c) x"; cases "user_list c (Suc i) xs")
    fix a b assume "as_model (user_public_fields c) x = Inl a" "user_list c (Suc i) xs = Inl b"
    with Cons.IH [of "Suc i" b] Cons.prems rep show ?case
      by (fastforce simp: under_def reports_def)
  next
    fix a b assume "as_model (user_public_fields c) x = Inl a" "user_list c (Suc i) xs = Inr b"
    with Cons.prems rep show ?case by (auto simp: under_def reports_def)
  next
    fix a b assume "as_model (user_public_fields c) x = Inr a" "user_list c (Suc i) xs = Inl b"
    with Cons.IH [of "Suc i" b] Cons.prems show ?case by fastforce
  next
    fix a b assume "as_model (user_public_fields c) x = Inr a" "user_list c (Suc i) xs = Inr b"
    with Cons.prems show ?case by simp
  qed
qed simp

lemma users_data_field_Inr_iff:
  "users_data_field c d = Inr us \<longleftrightarrow> (\<exists>xs. d ''data'' = Some (JList xs) \<and> user_list c 0 xs = Inr us)"
proof (cases "d ''data''")
  case (Some x)
  then show ?thesis by (cases x) (auto simp: users_data_field_def err_at_def)
qed (simp add: users_data_field_def)

lemma users_data_field_list:
  "d ''data'' = Some (JList xs) \<Longrightarrow> users_data_field c d = user_list c 0 xs"
  by (simp add: users_data_field_def)

lemma users_public_eq_iff: "r = \<lparr>data = us, page = m\<rparr> \<longleftrightarrow> data r = us \<and> page r = m"
  by (cases r) auto

lemma user_public_eq_iff:
  "u = \<lparr>up_username = a, up_email = b, up_role = r, up_phoneNumber = p\<rparr> \<longleftrightarrow>
     up_username u = a \<and> up_email u = b \<and> up_role u = r \<and> up_phoneNumber u = p"
  by (cases u) auto

lemma validate_UserBody_Inr_dest:
  "validate_UserBody c v = Inr b \<Longrightarrow>
     2 \<le> length (ub_username b) \<and> length (ub_username b) \<le> 25 \<and> (\<exists>e. email_validate c e = Inr (ub_email b))"
  by (auto simp: validate_UserBody_def as_model_Inr_iff username_field_def email_field_def)

lemma validate_UserPublic_Inr_iff:
  "validate_UserPublic c v = Inr u \<longleftrightarrow>
     (\<exists>kvs. v = JObj kvs \<and>
        dict_of kvs ''username'' = Some (JStr (up_username u)) \<and>
        2 \<le> length (up_username u) \<and> length (up_username u) \<le> 25 \<and>
        (\<exists>e. dict_of kvs ''email'' = Some (JStr e) \<and> email_validate c e = Inr (up_email u)) \<and>
        dict_of kvs ''role'' = Some (JStr (up_role u)) \<and> up_role u \<in> set (role_values c) \<and>
        (case up_phoneNumber u of
           None \<Rightarrow> dict_of kvs ''phoneNumber'' = None \<or> dict_of kvs ''phoneNumber'' = Some JNull
         | Some p \<Rightarrow> dict_of kvs ''phoneNumber'' = Some (JStr p)))"
  by (auto simp: validate_UserPublic_def as_model_Inr_iff user_public_fields_def username_field_def
      email_field_def optional_Inr_iff user_public_eq_iff split: option.splits)

lemma validate_UsersPublic_Inl:
  assumes "dict_of kvs ''data'' = Some (JList xs)" "validate_UsersPublic c (JObj kvs) = Inl x"
  shows "x = ValidationErr (case_sum id (\<lambda>_. []) (page_fields c (dict_of kvs)) @
                            case_sum id (\<lambda>_. []) (user_list c 0 xs)) \<and>
         (\<not> isl (page_fields c (dict_of kvs)) \<longrightarrow> isl (user_list c 0 xs))"
  using assms
  by (cases "page_fields c (dict_of kvs)"; cases "user_list c 0 xs")
    (auto simp: validate_UsersPublic_def as_model_def users_data_field_list to_outcome_def)

lemma err_item_under [simp]: "err_item (under l (under (Idx j) e)) = j"
  by (simp add: err_item_def under_def)

lemma map_err_item_under:
  "map err_item (map (under l \<circ> under (Idx j)) es) = replicate (length es) j"
  by (induction es) auto

lemma err_items_under:
  "sorted (map err_item (map (under l \<circ> under (Idx j)) es))"
  "es \<noteq> [] \<Longrightarrow> err_item ` set (map (under l \<circ> under (Idx j)) es) = {j}"
proof -
  show "sorted (map err_item (map (under l \<circ> under (Idx j)) es))"
    by (simp only: map_err_item_under sorted_replicate)
  assume "es \<noteq> []"
  have "err_item ` set (map (under l \<circ> under (Idx j)) es) = set (map err_item (map (under l \<circ> under (Idx j)) es))"
    by (simp only: list.set_map)
  with \<open>es \<noteq> []\<close> show "err_item ` set (map (under l \<circ> under (Idx j)) es) = {j}"
    by (simp only: map_err_item_under) simp
qed

lemma user_list_error_items:
  "user_list c i xs = Inl es \<Longrightarrow>
     sorted (map err_item es) \<and>
     err_item ` set es = {j. i \<le> j \<and> j < i + length xs \<and> isl (as_model (user_public_fields c) (xs ! (j - i)))}"
proof (induction xs arbitrary: i es)
  case (Cons x xs)
  have rep: "reports (as_model (user_public_fields c) x)" by blast
  have nth: "\<And>j. Suc i \<le> j \<Longrightarrow> (x # xs) ! (j - i) = xs ! (j - Suc i)"
    by (simp add: nth_Cons' Suc_diff_Suc)
  have ran: "{j. i \<le> j \<and> j < i + length (x # xs) \<and> isl (as_model (user_public_fields c) ((x # xs) ! (j - i)))} =
      (if isl (as_model (user_public_fields c) x) then {i} else {}) \<union>
      {j. Suc i \<le> j \<and> j < Suc i + length xs \<and> isl (as_model (user_public_fields c) (xs ! (j - Suc i)))}"
    using nth by (auto simp: le_less_Suc_eq le_eq_less_or_eq)
  show ?case
  proof (cases "as_model (user_public_fields c) x"; cases "user_list c (Suc i) xs")
    fix a b assume a: "as_model (user_public_fields c) x = Inl a" and b: "user_list c (Suc i) xs = Inl b"
    from Cons.IH [OF b] have sb: "sorted (map err_item b)"
      and ib: "err_item ` set b = {j. Suc i \<le> j \<and> j < Suc i + length xs \<and>
                 isl (as_model (user_public_fields c) (xs ! (j - Suc i)))}" by auto
    from ib have lb: "\<forall>e\<in>set b. Suc i \<le> err_item e" by blast
    from a rep have "a \<noteq> []" by (simp add: reports_def)
    with Cons.prems a b have es: "es = map (under (Key ''data'') \<circ> under (Idx i)) a @ b" by simp
    have set_a: "err_item ` set (map (under (Key ''data'') \<circ> under (Idx i)) a) = {i}"
      using \<open>a \<noteq> []\<close> by (rule err_items_under)
    have "sorted (map err_item es)"
      using sb lb set_a err_items_under(1) [where l = "Key ''data''" and j = i and es = a] unfolding es
      by (auto simp: sorted_append simp del: map_map)
    moreover have "err_item ` set es = {i} \<union> err_item ` set b"
      unfolding es using set_a by (simp add: image_Un)
    ultimately show ?case using a unfolding ran ib by simp
  next
    fix a b assume a: "as_model (user_public_fields c) x = Inl a" and b: "user_list c (Suc i) xs = Inr b"
    from a rep have "a \<noteq> []" by (simp add: reports_def)
    moreover have "{j. Suc i \<le> j \<and> j < Suc i + length xs \<and> isl (as_model (user_public_fields c) (xs ! (j - Suc i)))} = {}"
      using b by (auto simp: user_list_Inr_iff list_all2_conv_all_nth)
    ultimately show ?case using Cons.prems a b err_items_under [where l = "Key ''data''" and j = i and es = a] unfolding ran
      by (simp del: map_map) auto
  next
    fix a b assume a: "as_model (user_public_fields c) x = Inr a" and b: "user_list c (Suc i) xs = Inl b"
    with Cons.IH [OF b] Cons.prems show ?case unfolding ran by simp
  next
    fix a b assume "as_model (user_public_fields c) x = Inr a" "user_list c (Suc i) xs = Inr b"
    with Cons.prems show ?case by simp
  qed
qed simp

lemma UserBody_err_types:
  assumes "validate_UserBody c v = Inl (ValidationErr es)"
  shows "etype ` set es \<subseteq> insert ModelType
     ({Missing, StringType, StringTooShort 8, StringTooLong 64, ValueError password_msg} \<union>
      {Missing, StringType, StringTooShort 2, StringTooLong 25, ValueError username_msg} \<union>
      insert Missing ({StringType} \<union> range (\<lambda>r. CustomValueError (''value is not a valid email address: '' @ r))))"
proof (cases "\<exists>kvs. v = JObj kvs")
  case True
  then obtain kvs where v: "v = JObj kvs" by blast
  let ?r = "both (both (sbind (password_field (dict_of kvs)) validate_password)
                 (sbind (username_field (dict_of kvs)) validate_username)) (email_field c (dict_of kvs))"
  from assms v have "?r = Inl es"
    by (cases ?r) (simp_all add: validate_UserBody_def as_model_def to_outcome_def)
  then have "etype ` set es = err_types ?r" by (simp add: err_types_def)
  also have "\<dots> \<subseteq> {Missing, StringType, StringTooShort 8, StringTooLong 64, ValueError password_msg} \<union>
      {Missing, StringType, StringTooShort 2, StringTooLong 25, ValueError username_msg} \<union>
      insert Missing ({StringType} \<union> range (\<lambda>r. CustomValueError (''value is not a valid email address: '' @ r)))"
    using err_types_password_field [of "dict_of kvs"] err_types_username_field [of "dict_of kvs"]
      err_types_email_field [of c "dict_of kvs"] by (simp only: err_types_both) blast
  finally show ?thesis by blast
next
  case False
  with assms show ?thesis
    by (cases v) (auto simp: validate_UserBody_def as_model_def to_outcome_def)
qed

lemmas schema_field_defs [validate_simps] =
  username_field_def email_field_def password_field_def user_schema_fields_def
  user_public_fields_def users_data_field_def

lemmas eval_simps = schema_field_defs validator_defs fullmatch_username_re fullmatch_password_re
  uname_shape_def password_strong_def class_defs sample_env_def dict_of_def
  str_len_def email_type_def role_type_def required_def optional_def as_model_def
  to_outcome_def err_at_def

section \<open>Properties\<close>

subsection \<open>UserBody\<close>

text \<open>C1. \<open>UserBody\<close> accepts a registration body exactly when it is an
  object whose \<open>username\<close>, \<open>email\<close> and \<open>password\<close> are strings, the
  username has 2 to 25 characters and matches the username pattern, the
  password matches the password pattern, and the email collaborator accepts
  the address; the instance holds the username and password unchanged and
  the normalised address.\<close>

theorem validate_UserBody_ok:
  "validate_UserBody c v = Inr b \<longleftrightarrow>
     (\<exists>kvs u e p. v = JObj kvs \<and>
        dict_of kvs ''username'' = Some (JStr u) \<and> dict_of kvs ''email'' = Some (JStr e) \<and>
        dict_of kvs ''password'' = Some (JStr p) \<and>
        2 \<le> length u \<and> length u \<le> 25 \<and> uname_shape u \<and> password_strong p \<and>
        email_validate c e = Inr (ub_email b) \<and> ub_username b = u \<and> ub_password b = p)"
  by (auto simp: validate_UserBody_def as_model_Inr_iff username_field_def password_field_def
      email_field_def password_strong_def)

theorem validate_UserBody_ok_witness:
  "validate_UserBody sample_env
     (JObj [(''username'', JStr ''mister_business''), (''email'', JStr ''mister_business@gmail.com''),
            (''password'', JStr ''Secret1!'')]) =
   Inr \<lparr>ub_username = ''mister_business'', ub_email = ''mister_business@gmail.com'',
        ub_password = ''Secret1!''\<rparr>"
  using validate_UserBody_ok [of sample_env
      "JObj [(''username'', JStr ''mister_business''), (''email'', JStr ''mister_business@gmail.com''),
             (''password'', JStr ''Secret1!'')]"
      "\<lparr>ub_username = ''mister_business'', ub_email = ''mister_business@gmail.com'',
        ub_password = ''Secret1!''\<rparr>"]
  by (simp add: eval_simps)

text \<open>C12. Validation of a registration body is all-or-nothing and
  structured: a failure is always a \<open>ValidationError\<close> (never another
  exception) with at least one line error, each located at the body itself or
  at one of the fields \<open>password\<close>, \<open>username\<close>, \<open>email\<close>.\<close>

theorem validate_UserBody_errors:
  "validate_UserBody c v = Inl x \<Longrightarrow>
     \<exists>es. x = ValidationErr es \<and> es \<noteq> [] \<and>
       eloc ` set es \<subseteq> {[], [Key ''password''], [Key ''username''], [Key ''email'']}"
proof -
  assume res: "validate_UserBody c v = Inl x"
  define core where "core = (\<lambda>d. map_sum id (\<lambda>((p, u), e). \<lparr>ub_username = u, ub_email = e, ub_password = p\<rparr>)
       (both (both (sbind (password_field d) validate_password)
                   (sbind (username_field d) validate_username))
             (email_field c d)))"
  have "\<And>d. reports (core d)" unfolding core_def by blast
  then have rep: "reports (as_model core v)" by blast
  have "\<And>d. err_locs (core d) \<subseteq> {[Key ''password''], [Key ''username''], [Key ''email'']}"
  proof -
    fix d
    have "err_locs (sbind (password_field d) validate_password) \<subseteq> {[Key ''password'']}"
      by (rule err_locs_sbind_at [OF err_locs_fields(2) err_locs_validate_password])
    moreover have "err_locs (sbind (username_field d) validate_username) \<subseteq> {[Key ''username'']}"
      by (rule err_locs_sbind_at [OF err_locs_fields(1) err_locs_validate_username])
    moreover have "err_locs (email_field c d) \<subseteq> {[Key ''email'']}"
      by (rule err_locs_fields(3))
    ultimately show "err_locs (core d) \<subseteq> {[Key ''password''], [Key ''username''], [Key ''email'']}"
      unfolding core_def err_locs_map_sum err_locs_both by blast
  qed
  then have locs: "err_locs (as_model core v) \<subseteq> {[], [Key ''password''], [Key ''username''], [Key ''email'']}"
    by (rule err_locs_as_model [THEN order_trans]) auto
  from res obtain es where "as_model core v = Inl es" "x = ValidationErr es"
    by (auto simp: validate_UserBody_def core_def)
  with rep locs show ?thesis by (auto simp: reports_def err_locs_def)
qed

theorem validate_UserBody_errors_witness:
  "\<exists>es. ValidationErr
      [\<lparr>eloc = [Key ''password''], etype = Missing\<rparr>,
       \<lparr>eloc = [Key ''username''], etype = ValueError username_msg\<rparr>,
       \<lparr>eloc = [Key ''email''], etype = Missing\<rparr>] = ValidationErr es \<and> es \<noteq> [] \<and>
     eloc ` set es \<subseteq> {[], [Key ''password''], [Key ''username''], [Key ''email'']}"
proof -
  have "validate_UserBody sample_env (JObj [(''username'', JStr ''_x'')]) =
    Inl (ValidationErr
      [\<lparr>eloc = [Key ''password''], etype = Missing\<rparr>,
       \<lparr>eloc = [Key ''username''], etype = ValueError username_msg\<rparr>,
       \<lparr>eloc = [Key ''email''], etype = Missing\<rparr>])"
    by (simp add: validate_UserBody_def eval_simps)
  then show ?thesis by (rule validate_UserBody_errors)
qed

text \<open>C14. The length limits of \<open>Field(min_length=2, max_length=25)\<close> are
  checked before the pattern: a username that is too short or too long is
  reported with \<open>string_too_short\<close>/\<open>string_too_long\<close> at \<open>username\<close>, and
  the pattern's message is then reported for no field.\<close>

theorem UserBody_length_before_pattern:
  assumes "dict_of kvs ''username'' = Some (JStr u)" and "length u < 2 \<or> 25 < length u"
  shows "\<exists>es. validate_UserBody c (JObj kvs) = Inl (ValidationErr es) \<and>
           \<lparr>eloc = [Key ''username''],
            etype = (if length u < 2 then StringTooShort 2 else StringTooLong 25)\<rparr> \<in> set es \<and>
           ValueError username_msg \<notin> etype ` set es"
proof -
  have uf: "sbind (username_field (dict_of kvs)) validate_username =
      Inl (err_at ''username'' (if length u < 2 then StringTooShort 2 else StringTooLong 25))"
    using assms by (auto simp: username_field_def str_len_def)
  show ?thesis
    unfolding validate_UserBody_def as_model_JObj uf err_at_def
    by (rule both_keeps_error [OF _ err_types_password_branch err_types_email_branch]) simp
qed

theorem UserBody_length_before_pattern_witness:
  "\<exists>es. validate_UserBody sample_env (JObj [(''username'', JStr ''_''), (''email'', JStr ''a@b.c''),
        (''password'', JStr ''Secret1!'')]) = Inl (ValidationErr es) \<and>
      \<lparr>eloc = [Key ''username''], etype = StringTooShort 2\<rparr> \<in> set es \<and>
      ValueError username_msg \<notin> etype ` set es"
  using UserBody_length_before_pattern [of "[(''username'', JStr ''_''), (''email'', JStr ''a@b.c''),
        (''password'', JStr ''Secret1!'')]" "''_''" sample_env]
  by (simp add: dict_of_def)

text \<open>C20. The registration body has no phone number: the field and its
  validator are commented out in \<open>User\<close>, so a \<open>phoneNumber\<close> key of the
  body changes nothing, whatever its value.\<close>

theorem UserBody_ignores_phone:
  "validate_UserBody c (JObj (kvs @ [(''phoneNumber'', x)])) = validate_UserBody c (JObj kvs)"
  by (simp add: validate_UserBody_def username_field_def password_field_def email_field_def
      required_def)

theorem UserBody_ignores_phone_witness:
  "validate_UserBody sample_env (JObj ([(''username'', JStr ''ab'')] @ [(''phoneNumber'', JStr ''x'')])) =
   validate_UserBody sample_env (JObj [(''username'', JStr ''ab'')])"
  by (rule UserBody_ignores_phone)

subsection \<open>UserPublic and UsersPublic\<close>

text \<open>C8. The public user projection carries no password: a \<open>password\<close>
  key in the source object does not influence the validated \<open>UserPublic\<close>,
  and its serialisation has exactly the keys \<open>username\<close>, \<open>email\<close>,
  \<open>role\<close> and \<open>phoneNumber\<close>.\<close>

theorem UserPublic_no_password:
  "validate_UserPublic c (JObj (kvs @ [(''password'', x)])) = validate_UserPublic c (JObj kvs) \<and>
   obj_keys (dump_UserPublic u) = {''username'', ''email'', ''role'', ''phoneNumber''}"
  by (auto simp: validate_UserPublic_def user_public_fields_def username_field_def email_field_def
      optional_def required_def dump_UserPublic_def obj_keys_def)

theorem UserPublic_no_password_witness:
  "validate_UserPublic sample_env (JObj ([] @ [(''password'', JStr ''Secret1!'')])) =
     validate_UserPublic sample_env (JObj []) \<and>
   obj_keys (dump_UserPublic \<lparr>up_username = ''ab'', up_email = ''a@b'', up_role = ''user'',
     up_phoneNumber = None\<rparr>) = {''username'', ''email'', ''role'', ''phoneNumber''}"
  by (rule UserPublic_no_password)

text \<open>C21. \<open>UsersPublic\<close> accepts a page exactly when its inherited page
  fields are valid and its \<open>data\<close> is a list each of whose items is a valid
  \<open>UserPublic\<close>; the validated list keeps the items' order and number, next
  to the validated page metadata.\<close>

theorem validate_UsersPublic_ok:
  "validate_UsersPublic c v = Inr r \<longleftrightarrow>
     (\<exists>kvs xs. v = JObj kvs \<and> page_fields c (dict_of kvs) = Inr (page r) \<and>
        dict_of kvs ''data'' = Some (JList xs) \<and>
        list_all2 (\<lambda>x u. validate_UserPublic c x = Inr u) xs (data r))"
  by (auto simp: validate_UsersPublic_def validate_UserPublic_def as_model_Inr_iff
      users_data_field_Inr_iff user_list_Inr_iff users_public_eq_iff)

theorem validate_UsersPublic_ok_witness:
  "validate_UsersPublic sample_env (JObj [(''data'', JList
     [JObj [(''username'', JStr ''ab''), (''email'', JStr ''a@b''), (''role'', JStr ''user'')]])]) =
   Inr \<lparr>data = [\<lparr>up_username = ''ab'', up_email = ''a@b'', up_role = ''user'', up_phoneNumber = None\<rparr>],
        page = JNull\<rparr>"
  using validate_UsersPublic_ok [of sample_env "JObj [(''data'', JList
     [JObj [(''username'', JStr ''ab''), (''email'', JStr ''a@b''), (''role'', JStr ''user'')]])]"
     "\<lparr>data = [\<lparr>up_username = ''ab'', up_email = ''a@b'', up_role = ''user'', up_phoneNumber = None\<rparr>],
       page = JNull\<rparr>"]
  by (simp add: validate_UserPublic_def eval_simps)

text \<open>C23. Every error of a rejected page is either an error of the inherited
  page fields or an error of an item of \<open>data\<close>, located under \<open>data\<close> and
  that item's index; when the page fields are valid, the page is rejected
  with at least one item error.\<close>

theorem validate_UsersPublic_errors:
  assumes "dict_of kvs ''data'' = Some (JList xs)" "validate_UsersPublic c (JObj kvs) = Inl x"
  shows "\<exists>es. x = ValidationErr es \<and>
    (\<forall>e\<in>set es. (\<exists>pe. page_fields c (dict_of kvs) = Inl pe \<and> e \<in> set pe) \<or>
                 (\<exists>i<length xs. take 2 (eloc e) = [Key ''data'', Idx i])) \<and>
    (\<not> isl (page_fields c (dict_of kvs)) \<longrightarrow> es \<noteq> [])"
  using validate_UsersPublic_Inl [OF assms] user_list_errors [of c 0 xs]
  by (cases "page_fields c (dict_of kvs)"; cases "user_list c 0 xs") auto

theorem validate_UsersPublic_errors_witness:
  "\<exists>es. ValidationErr [\<lparr>eloc = [Key ''data'', Idx 0], etype = ModelType\<rparr>] = ValidationErr es \<and>
     es \<noteq> [] \<and> take 2 (eloc (hd es)) = [Key ''data'', Idx 0]"
proof -
  have d: "dict_of [(''data'', JList [JNum 3])] ''data'' = Some (JList [JNum 3])"
    by (simp add: dict_of_def)
  have v: "validate_UsersPublic sample_env (JObj [(''data'', JList [JNum 3])]) =
      Inl (ValidationErr [\<lparr>eloc = [Key ''data'', Idx 0], etype = ModelType\<rparr>])"
    by (simp add: validate_UsersPublic_def under_def eval_simps)
  have p: "\<And>d. page_fields sample_env d = Inr JNull" by (simp add: sample_env_def)
  from validate_UsersPublic_errors [OF d v] p show ?thesis by auto
qed

subsection \<open>Order of the errors of a page\<close>

text \<open>C22. The item errors of a rejected page (those located under
  \<open>data\<close>) are reported item by item, in the order of the list, and an item
  has errors exactly when it is not a valid \<open>UserPublic\<close>: every invalid item
  is reported, and no valid one. The inherited page fields, which have other
  names than \<open>data\<close>, report their errors at their own locations.\<close>

theorem UsersPublic_errors_in_order:
  assumes "dict_of kvs ''data'' = Some (JList xs)"
    and "validate_UsersPublic c (JObj kvs) = Inl (ValidationErr es)"
    and "\<And>pe e. page_fields c (dict_of kvs) = Inl pe \<Longrightarrow> e \<in> set pe \<Longrightarrow>
           take 1 (eloc e) \<noteq> [Key ''data'']"
  shows "sorted (map err_item (filter (\<lambda>e. take 1 (eloc e) = [Key ''data'']) es)) \<and>
    err_item ` set (filter (\<lambda>e. take 1 (eloc e) = [Key ''data'']) es) =
      {j. j < length xs \<and> isl (validate_UserPublic c (xs ! j))}"
proof -
  let ?P = "\<lambda>e. take 1 (eloc e) = [Key ''data'']"
  let ?pe = "case_sum id (\<lambda>_. []) (page_fields c (dict_of kvs))"
  let ?ue = "case_sum id (\<lambda>_. []) (user_list c 0 xs)"
  from validate_UsersPublic_Inl [OF assms(1,2)] have es: "es = ?pe @ ?ue" by simp
  have "filter ?P ?pe = []"
    using assms(3) by (cases "page_fields c (dict_of kvs)") (auto simp: filter_empty_conv)
  moreover have "filter ?P ?ue = ?ue"
  proof (cases "user_list c 0 xs")
    case (Inl ue)
    have "take 1 l = [Key ''data'']" if "take 2 l = [Key ''data'', Idx j]" for l :: "loc_item list" and j
      using that by (cases l) auto
    with user_list_errors [OF Inl] Inl show ?thesis by (auto simp: filter_id_conv)
  qed simp
  ultimately have f: "filter ?P es = ?ue" by (simp add: es)
  show ?thesis
  proof (cases "user_list c 0 xs")
    case (Inl ue)
    from user_list_error_items [OF Inl] Inl show ?thesis
      unfolding f by (simp add: validate_UserPublic_def to_outcome_def)
  next
    case (Inr us)
    then have "?ue = []" by simp
    moreover from Inr have "\<forall>j<length xs. \<not> isl (validate_UserPublic c (xs ! j))"
      by (auto simp: user_list_Inr_iff list_all2_conv_all_nth validate_UserPublic_def to_outcome_def)
    ultimately show ?thesis unfolding f by simp
  qed
qed

theorem UsersPublic_errors_in_order_witness:
  "sorted (map err_item [\<lparr>eloc = [Key ''data'', Idx 0], etype = ModelType\<rparr>]) \<and>
    err_item ` set [\<lparr>eloc = [Key ''data'', Idx 0], etype = ModelType\<rparr>] =
    {j. j < length [JNum 3, JObj [(''username'', JStr ''ab''), (''email'', JStr ''a@b''), (''role'', JStr ''user'')]] \<and>
        isl (validate_UserPublic sample_env
          ([JNum 3, JObj [(''username'', JStr ''ab''), (''email'', JStr ''a@b''), (''role'', JStr ''user'')]] ! j))}"
proof -
  have v: "validate_UsersPublic sample_env (JObj [(''data'', JList [JNum 3,
      JObj [(''username'', JStr ''ab''), (''email'', JStr ''a@b''), (''role'', JStr ''user'')]])]) =
    Inl (ValidationErr [\<lparr>eloc = [Key ''data'', Idx 0], etype = ModelType\<rparr>])"
    by (simp add: validate_UsersPublic_def eval_simps under_def)
  have d: "dict_of [(''data'', JList [JNum 3, JObj [(''username'', JStr ''ab''),
      (''email'', JStr ''a@b''), (''role'', JStr ''user'')]])] ''data'' =
    Some (JList [JNum 3, JObj [(''username'', JStr ''ab''), (''email'', JStr ''a@b''), (''role'', JStr ''user'')]])"
    by (simp add: dict_of_def)
  have p: "\<And>d. page_fields sample_env d = Inr JNull" by (simp add: sample_env_def)
  from UsersPublic_errors_in_order [OF d v] p show ?thesis by simp
qed

end
