(* ===== verification/Update.thy ===== *)
theory Update
  imports Schemas
begin

text \<open>
  \<open>UpdateUserBody\<close> (lines 57--91 of \<open>schemas.py\<close>): the profile update
  body. It has a required \<open>email\<close> and optional \<open>username\<close>,
  \<open>password\<close> and \<open>phoneNumber\<close>, three field validators, and a model
  validator in \<open>mode="before"\<close>, \<open>at_least_one_field\<close>, which pydantic
  calls on the raw body before any field is validated. It reads the three
  optional keys with \<open>self.get\<close> and raises unless one of them is truthy; on
  a body that is not a dict, \<open>self.get\<close> raises \<open>AttributeError\<close>, which
  pydantic does not convert into a validation error.
\<close>

definition at_least_one_msg :: string where
  "at_least_one_msg = ''At least one field for user required''"

definition at_least_one_field :: "jval \<Rightarrow> jval outcome" where
  "at_least_one_field self =
     (case self of
        JObj kvs \<Rightarrow>
          if \<not> list_ex truthy [dict_get (dict_of kvs) ''username'', dict_get (dict_of kvs) ''password'',
                               dict_get (dict_of kvs) ''phoneNumber'']
          then Inl (ValidationErr [\<lparr>eloc = [], etype = ValueError at_least_one_msg\<rparr>])
          else Inr self
      | _ \<Rightarrow> Inl (AttributeErr ''get''))"

text \<open>\<open>UpdateUserBody.validate_phone_number\<close>.\<close>

definition validate_phone_number_upd :: "env \<Rightarrow> string option \<Rightarrow> string option vresult" where
  "validate_phone_number_upd c value =
     (case value of
        Some v \<Rightarrow>
          (case check_phone_number c v of
             Inl msg \<Rightarrow> Inl (err_at ''phoneNumber'' (ValueError msg))
           | Inr p \<Rightarrow> Inr (Some p))
      | None \<Rightarrow> Inr value)"

text \<open>The four fields, each with its constraints and validator.\<close>

definition upd_email_field :: "env \<Rightarrow> payload \<Rightarrow> string vresult" where
  "upd_email_field c d = required d ''email'' (email_type c ''email'')"

definition upd_username_field :: "payload \<Rightarrow> string option vresult" where
  "upd_username_field d = optional d ''username'' (str_len ''username'' 2 25) validate_username_upd"

definition upd_password_field :: "payload \<Rightarrow> string option vresult" where
  "upd_password_field d = optional d ''password'' (str_len ''password'' 8 64) validate_password_upd"

definition upd_phone_field :: "env \<Rightarrow> payload \<Rightarrow> string option vresult" where
  "upd_phone_field c d = optional d ''phoneNumber'' Inr (validate_phone_number_upd c)"

record update_user_body =
  uu_email :: string
  uu_username :: "string option"
  uu_password :: "string option"
  uu_phoneNumber :: "string option"

definition update_fields :: "env \<Rightarrow> payload \<Rightarrow> update_user_body vresult" where
  "update_fields c d =
     map_sum id (\<lambda>(((e, u), p), ph). \<lparr>uu_email = e, uu_username = u, uu_password = p, uu_phoneNumber = ph\<rparr>)
       (both (both (both (upd_email_field c d) (upd_username_field d)) (upd_password_field d))
             (upd_phone_field c d))"

definition validate_UpdateUserBody :: "env \<Rightarrow> jval \<Rightarrow> update_user_body outcome" where
  "validate_UpdateUserBody c v =
     (case at_least_one_field v of
        Inl x \<Rightarrow> Inl x
      | Inr v' \<Rightarrow> to_outcome (as_model (update_fields c) v'))"

text \<open>The design the specification asks for (section 9): validate the fields
  first, then check "at least one field present" once, on the parsed values.
  This is a specification of \<open>UpdateUserBody\<close>, not code of the file.\<close>

definition update_post_parse :: "env \<Rightarrow> jval \<Rightarrow> update_user_body outcome" where
  "update_post_parse c v =
     (case as_model (update_fields c) v of
        Inl es \<Rightarrow> Inl (ValidationErr es)
      | Inr b \<Rightarrow>
          if uu_username b = None \<and> uu_password b = None \<and> uu_phoneNumber b = None
          then Inl (ValidationErr [\<lparr>eloc = [], etype = ValueError at_least_one_msg\<rparr>])
          else Inr b)"

section \<open>Lemmas\<close>

lemma validate_username_upd_Inr_iff [simp]:
  "validate_username_upd x = Inr r \<longleftrightarrow> r = x \<and> (\<forall>u. x = Some u \<longrightarrow> uname_shape u)"
  by (cases x) (auto simp: validate_username_upd_def fullmatch_username_re)

lemma validate_password_upd_Inr_iff [simp]:
  "validate_password_upd x = Inr r \<longleftrightarrow> r = x \<and> (\<forall>p. x = Some p \<longrightarrow> password_strong p)"
  by (cases x) (auto simp: validate_password_upd_def fullmatch_password_re)

lemma validate_phone_number_upd_Inr_iff [simp]:
  "validate_phone_number_upd c x = Inr r \<longleftrightarrow>
     (x = None \<and> r = None) \<or> (\<exists>v p. x = Some v \<and> check_phone_number c v = Inr p \<and> r = Some p)"
  by (cases x) (auto simp: validate_phone_number_upd_def split: sum.splits)

lemma at_least_one_field_Inr_iff:
  "at_least_one_field v = Inr v' \<longleftrightarrow>
     v' = v \<and> (\<exists>kvs. v = JObj kvs \<and> (truthy (dict_get (dict_of kvs) ''username'') \<or>
        truthy (dict_get (dict_of kvs) ''password'') \<or> truthy (dict_get (dict_of kvs) ''phoneNumber'')))"
  by (cases v) (auto simp: at_least_one_field_def)

lemma optional_truthy:
  "optional d k core after = Inr r \<Longrightarrow> truthy (dict_get d k) \<Longrightarrow>
     \<exists>s s'. d k = Some (JStr s) \<and> core s = Inr s' \<and> after (Some s') = Inr r"
  by (auto simp: optional_Inr_iff dict_get_def)

lemma update_fields_Inr_iff:
  "update_fields c d = Inr b \<longleftrightarrow>
     upd_email_field c d = Inr (uu_email b) \<and> upd_username_field d = Inr (uu_username b) \<and>
     upd_password_field d = Inr (uu_password b) \<and> upd_phone_field c d = Inr (uu_phoneNumber b)"
  by (cases b) (auto simp: update_fields_def)

lemma validate_UpdateUserBody_Inr_iff:
  "validate_UpdateUserBody c v = Inr b \<longleftrightarrow>
     (\<exists>kvs. v = JObj kvs \<and> (truthy (dict_get (dict_of kvs) ''username'') \<or>
        truthy (dict_get (dict_of kvs) ''password'') \<or> truthy (dict_get (dict_of kvs) ''phoneNumber'')) \<and>
      update_fields c (dict_of kvs) = Inr b)"
  by (cases v) (auto simp: validate_UpdateUserBody_def at_least_one_field_def)

lemma reports_upd_validators [simp, intro]:
  "reports (validate_username_upd x)" "reports (validate_password_upd x)"
  "reports (validate_phone_number_upd c x)"
  by (auto simp: validate_username_upd_def validate_password_upd_def validate_phone_number_upd_def
      reports_def err_at_def split: option.splits sum.splits)

lemma err_locs_upd_validators [simp]:
  "err_locs (validate_username_upd x) \<subseteq> {[Key ''username'']}"
  "err_locs (validate_password_upd x) \<subseteq> {[Key ''password'']}"
  "err_locs (validate_phone_number_upd c x) \<subseteq> {[Key ''phoneNumber'']}"
  by (auto simp: validate_username_upd_def validate_password_upd_def validate_phone_number_upd_def
      err_locs_def err_at_def split: option.splits sum.splits)

lemma err_locs_optional:
  "(\<And>s. err_locs (core s) \<subseteq> {[Key k]}) \<Longrightarrow> (\<And>x. err_locs (after x) \<subseteq> {[Key k]}) \<Longrightarrow>
     err_locs (optional d k core after) \<subseteq> {[Key k]}"
proof -
  assume c: "\<And>s. err_locs (core s) \<subseteq> {[Key k]}" and a: "\<And>x. err_locs (after x) \<subseteq> {[Key k]}"
  have s: "err_locs (sbind (sbind (str_type k v) core) (\<lambda>s. after (Some s))) \<subseteq> {[Key k]}" for v
    by (intro err_locs_sbind_at err_locs_str_type c a)
  have s': "err_locs (sbind (core x) (\<lambda>s. after (Some s))) \<subseteq> {[Key k]}" for x
    by (intro err_locs_sbind_at c a)
  show ?thesis
    unfolding optional_def
    by (cases "d k"; cases "the (d k)") (simp_all add: a s s')
qed

lemma reports_update_fields [simp, intro]: "reports (update_fields c d)"
  unfolding update_fields_def upd_email_field_def upd_username_field_def upd_password_field_def
    upd_phone_field_def
  by (intro reports_map_sum reports_both reports_required reports_optional reports_email_type
      reports_str_len reports_upd_validators reports_Inr)

lemma err_locs_update_fields:
  "err_locs (update_fields c d) \<subseteq>
     {[Key ''email''], [Key ''username''], [Key ''password''], [Key ''phoneNumber'']}"
proof -
  have "err_locs (upd_email_field c d) \<subseteq> {[Key ''email'']}"
    unfolding upd_email_field_def by (intro err_locs_required err_locs_email_type)
  moreover have "err_locs (upd_username_field d) \<subseteq> {[Key ''username'']}"
    unfolding upd_username_field_def by (intro err_locs_optional err_locs_str_len err_locs_upd_validators)
  moreover have "err_locs (upd_password_field d) \<subseteq> {[Key ''password'']}"
    unfolding upd_password_field_def by (intro err_locs_optional err_locs_str_len err_locs_upd_validators)
  moreover have "err_locs (upd_phone_field c d) \<subseteq> {[Key ''phoneNumber'']}"
    unfolding upd_phone_field_def by (intro err_locs_optional err_locs_upd_validators) simp
  ultimately show ?thesis unfolding update_fields_def err_locs_map_sum err_locs_both by blast
qed

lemma err_types_upd_validators:
  "err_types (validate_username_upd x) \<subseteq> {ValueError username_msg}"
  "err_types (validate_password_upd x) \<subseteq> {ValueError password_msg}"
  "err_types (validate_phone_number_upd c x) \<subseteq> {ValueError m |m. \<exists>p. check_phone_number c p = Inl m}"
  by (auto simp: validate_username_upd_def validate_password_upd_def validate_phone_number_upd_def
      err_types_def err_at_def split: option.splits sum.splits)

lemma err_types_update_fields:
  "err_types (update_fields c d) \<subseteq> {Missing, StringType, StringTooShort 2,
      StringTooLong 25, StringTooShort 8, StringTooLong 64, ValueError username_msg, ValueError password_msg} \<union>
    range (\<lambda>r. CustomValueError (''value is not a valid email address: '' @ r)) \<union>
    {ValueError m |m. \<exists>p. check_phone_number c p = Inl m}"
proof -
  have "err_types (upd_email_field c d) \<subseteq>
      insert Missing ({StringType} \<union> range (\<lambda>r. CustomValueError (''value is not a valid email address: '' @ r)))"
    unfolding upd_email_field_def by (intro err_types_required err_types_email_type)
  moreover have "err_types (upd_username_field d) \<subseteq>
      insert StringType {StringTooShort 2, StringTooLong 25, ValueError username_msg}"
    unfolding upd_username_field_def
    by (intro err_types_optional order_trans [OF err_types_str_len] order_trans [OF err_types_upd_validators(1)]) auto
  moreover have "err_types (upd_password_field d) \<subseteq>
      insert StringType {StringTooShort 8, StringTooLong 64, ValueError password_msg}"
    unfolding upd_password_field_def
    by (intro err_types_optional order_trans [OF err_types_str_len] order_trans [OF err_types_upd_validators(2)]) auto
  moreover have "err_types (upd_phone_field c d) \<subseteq>
      insert StringType {ValueError m |m. \<exists>p. check_phone_number c p = Inl m}"
    unfolding upd_phone_field_def
    by (intro err_types_optional err_types_upd_validators(3)) simp
  ultimately show ?thesis unfolding update_fields_def by auto
qed

lemma UpdateUserBody_err_types:
  assumes "validate_UpdateUserBody c v = Inl (ValidationErr es)"
  shows "etype ` set es \<subseteq> {ValueError at_least_one_msg, Missing, StringType, StringTooShort 2,
      StringTooLong 25, StringTooShort 8, StringTooLong 64, ValueError username_msg, ValueError password_msg} \<union>
    range (\<lambda>r. CustomValueError (''value is not a valid email address: '' @ r)) \<union>
    {ValueError m |m. \<exists>p. check_phone_number c p = Inl m}"
proof -
  obtain kvs where v: "v = JObj kvs" using assms
    by (cases v) (auto simp: validate_UpdateUserBody_def at_least_one_field_def)
  show ?thesis
  proof (cases "at_least_one_field v")
    case (Inl x)
    with assms v show ?thesis
      by (auto simp: validate_UpdateUserBody_def at_least_one_field_def split: if_splits)
  next
    case (Inr v')
    with v have "v' = v" by (simp add: at_least_one_field_Inr_iff)
    with Inr assms v have "update_fields c (dict_of kvs) = Inl es"
      by (cases "update_fields c (dict_of kvs)")
        (simp_all add: validate_UpdateUserBody_def as_model_def to_outcome_def)
    then have "etype ` set es = err_types (update_fields c (dict_of kvs))" by (simp add: err_types_def)
    with err_types_update_fields [of c "dict_of kvs"] show ?thesis by blast
  qed
qed

lemma optional_Some_truthy:
  assumes "optional d k core after = Inr (Some x)"
    and "\<And>s'. core [] = Inr s' \<Longrightarrow> after (Some s') \<noteq> Inr (Some x)"
    and "after None \<noteq> Inr (Some x)"
  shows "truthy (dict_get d k)"
  using assms by (auto simp: optional_def dict_get_def split: option.splits jval.splits)

section \<open>Properties\<close>

text \<open>C4. When none of \<open>username\<close>, \<open>password\<close>, \<open>phoneNumber\<close> is
  truthy in the raw body (absent, \<open>null\<close>, or an empty string), the update
  is rejected with the single model-level error \<open>At least one field for user
  required\<close>, whatever the email; in particular an empty \<open>phoneNumber\<close>
  counts as not given although the key is present.\<close>

theorem UpdateUserBody_needs_one:
  assumes "\<not> truthy (dict_get (dict_of kvs) ''username'')" "\<not> truthy (dict_get (dict_of kvs) ''password'')"
    "\<not> truthy (dict_get (dict_of kvs) ''phoneNumber'')"
  shows "validate_UpdateUserBody c (JObj kvs) =
    Inl (ValidationErr [\<lparr>eloc = [], etype = ValueError at_least_one_msg\<rparr>])"
  using assms by (simp add: validate_UpdateUserBody_def at_least_one_field_def)

theorem UpdateUserBody_needs_one_witness:
  "validate_UpdateUserBody sample_env
     (JObj [(''email'', JStr ''a@example.com''), (''phoneNumber'', JStr [])]) =
   Inl (ValidationErr [\<lparr>eloc = [], etype = ValueError at_least_one_msg\<rparr>])"
  by (rule UpdateUserBody_needs_one) (simp_all add: dict_of_def)

text \<open>C5. A body with a valid email and exactly one of the optional fields,
  valid, is accepted: the instance holds the normalised email, that field's
  value (the canonical number for a phone), and \<open>None\<close> for the other two.\<close>

theorem UpdateUserBody_single_field:
  assumes "email_validate c e = Inr e'" and "2 \<le> length u" "length u \<le> 25" "uname_shape u"
    and "password_strong p" and "check_phone_number c ph = Inr ph'" "ph \<noteq> []"
  shows "validate_UpdateUserBody c (JObj [(''email'', JStr e), (''username'', JStr u)]) =
      Inr \<lparr>uu_email = e', uu_username = Some u, uu_password = None, uu_phoneNumber = None\<rparr> \<and>
    validate_UpdateUserBody c (JObj [(''email'', JStr e), (''password'', JStr p)]) =
      Inr \<lparr>uu_email = e', uu_username = None, uu_password = Some p, uu_phoneNumber = None\<rparr> \<and>
    validate_UpdateUserBody c (JObj [(''email'', JStr e), (''phoneNumber'', JStr ph)]) =
      Inr \<lparr>uu_email = e', uu_username = None, uu_password = None, uu_phoneNumber = Some ph'\<rparr>"
proof -
  have "u \<noteq> []" "p \<noteq> []" using assms(2,5) by (auto simp: password_strong_def)
  then show ?thesis
    using assms
    by (simp add: validate_UpdateUserBody_def at_least_one_field_def update_fields_def dict_of_def
        upd_email_field_def upd_username_field_def upd_password_field_def upd_phone_field_def
        optional_def str_len_def email_type_def validate_username_upd_def validate_password_upd_def
        validate_phone_number_upd_def fullmatch_username_re fullmatch_password_re password_strong_def)
qed

theorem UpdateUserBody_single_field_witness:
  "validate_UpdateUserBody sample_env (JObj [(''email'', JStr ''a@b''), (''username'', JStr ''bob'')]) =
      Inr \<lparr>uu_email = ''a@b'', uu_username = Some ''bob'', uu_password = None, uu_phoneNumber = None\<rparr> \<and>
    validate_UpdateUserBody sample_env (JObj [(''email'', JStr ''a@b''), (''password'', JStr ''Secret1!'')]) =
      Inr \<lparr>uu_email = ''a@b'', uu_username = None, uu_password = Some ''Secret1!'', uu_phoneNumber = None\<rparr> \<and>
    validate_UpdateUserBody sample_env (JObj [(''email'', JStr ''a@b''), (''phoneNumber'', JStr ''+380'')]) =
      Inr \<lparr>uu_email = ''a@b'', uu_username = None, uu_password = None, uu_phoneNumber = Some ''+380''\<rparr>"
  by (rule UpdateUserBody_single_field) (simp_all add: sample_env_def uname_shape_def password_strong_def class_defs)


text \<open>C9. Every accepted update changes something and is as strict as
  registration: at least one of username, password and phone is set, a set
  username has 2 to 25 characters and matches the username pattern, and a set
  password matches the password pattern.\<close>

theorem UpdateUserBody_sound:
  assumes "validate_UpdateUserBody c v = Inr b"
  shows "(uu_username b \<noteq> None \<or> uu_password b \<noteq> None \<or> uu_phoneNumber b \<noteq> None) \<and>
    (\<forall>u. uu_username b = Some u \<longrightarrow> 2 \<le> length u \<and> length u \<le> 25 \<and> uname_shape u) \<and>
    (\<forall>p. uu_password b = Some p \<longrightarrow> password_strong p)"
proof -
  from assms obtain kvs where v: "v = JObj kvs"
    and t: "truthy (dict_get (dict_of kvs) ''username'') \<or> truthy (dict_get (dict_of kvs) ''password'') \<or>
            truthy (dict_get (dict_of kvs) ''phoneNumber'')"
    and f: "update_fields c (dict_of kvs) = Inr b"
    by (auto simp: validate_UpdateUserBody_Inr_iff)
  from f have u: "upd_username_field (dict_of kvs) = Inr (uu_username b)"
    and p: "upd_password_field (dict_of kvs) = Inr (uu_password b)"
    and ph: "upd_phone_field c (dict_of kvs) = Inr (uu_phoneNumber b)"
    by (simp_all add: update_fields_Inr_iff)
  have "uu_username b \<noteq> None \<or> uu_password b \<noteq> None \<or> uu_phoneNumber b \<noteq> None"
    using t optional_truthy [OF u [unfolded upd_username_field_def]]
      optional_truthy [OF p [unfolded upd_password_field_def]]
      optional_truthy [OF ph [unfolded upd_phone_field_def]]
    by auto
  moreover have "\<forall>u'. uu_username b = Some u' \<longrightarrow> 2 \<le> length u' \<and> length u' \<le> 25 \<and> uname_shape u'"
    using u by (auto simp: upd_username_field_def optional_Inr_iff)
  moreover have "\<forall>p'. uu_password b = Some p' \<longrightarrow> password_strong p'"
    using p by (auto simp: upd_password_field_def optional_Inr_iff)
  ultimately show ?thesis by blast
qed

theorem UpdateUserBody_sound_witness:
  "2 \<le> length ''bob'' \<and> length ''bob'' \<le> 25 \<and> uname_shape ''bob''"
proof -
  have "validate_UpdateUserBody sample_env (JObj [(''email'', JStr ''a@b''), (''username'', JStr ''bob'')]) =
      Inr \<lparr>uu_email = ''a@b'', uu_username = Some ''bob'', uu_password = None, uu_phoneNumber = None\<rparr>"
    by (simp add: validate_UpdateUserBody_def at_least_one_field_def update_fields_def eval_simps
        upd_email_field_def upd_username_field_def upd_password_field_def upd_phone_field_def)
  from UpdateUserBody_sound [OF this] show ?thesis by simp
qed

text \<open>C17. On a body that is not a JSON object, \<open>UpdateUserBody\<close> does not
  raise a validation error: its before-validator calls \<open>self.get\<close> on the
  raw value and raises \<open>AttributeError\<close>, whereas the other schemas, such as
  \<open>UserBody\<close>, report a \<open>model_type\<close> validation error.\<close>

theorem UpdateUserBody_non_object:
  assumes "\<forall>kvs. v \<noteq> JObj kvs"
  shows "validate_UpdateUserBody c v = Inl (AttributeErr ''get'') \<and>
    validate_UserBody c v = Inl (ValidationErr [\<lparr>eloc = [], etype = ModelType\<rparr>])"
  using assms by (cases v) (auto simp: validate_UpdateUserBody_def at_least_one_field_def
      validate_UserBody_def as_model_def to_outcome_def)


theorem UpdateUserBody_non_object_witness:
  "validate_UpdateUserBody sample_env (JList []) = Inl (AttributeErr ''get'') \<and>
    validate_UserBody sample_env (JList []) = Inl (ValidationErr [\<lparr>eloc = [], etype = ModelType\<rparr>])"
  by (rule UpdateUserBody_non_object) simp

text \<open>C24. A rejected update is either that \<open>AttributeError\<close> on a
  non-object body, or a validation error with at least one line error, each
  located at the body or at one of its four fields.\<close>

theorem UpdateUserBody_errors:
  assumes "validate_UpdateUserBody c v = Inl x"
  shows "(x = AttributeErr ''get'' \<and> (\<forall>kvs. v \<noteq> JObj kvs)) \<or>
    (\<exists>es. x = ValidationErr es \<and> es \<noteq> [] \<and>
      eloc ` set es \<subseteq> {[], [Key ''email''], [Key ''username''], [Key ''password''], [Key ''phoneNumber'']})"
proof (cases "\<exists>kvs. v = JObj kvs")
  case False
  with assms show ?thesis by (cases v) (auto simp: validate_UpdateUserBody_def at_least_one_field_def)
next
  case True
  then obtain kvs where v: "v = JObj kvs" by blast
  show ?thesis
  proof (cases "at_least_one_field v")
    case (Inl y)
    with assms v show ?thesis by (auto simp: validate_UpdateUserBody_def at_least_one_field_def split: if_splits)
  next
    case (Inr v')
    with v have "v' = v" by (simp add: at_least_one_field_Inr_iff)
    with Inr assms v obtain es where "update_fields c (dict_of kvs) = Inl es" "x = ValidationErr es"
      by (auto simp: validate_UpdateUserBody_def)
    with err_locs_update_fields [of c "dict_of kvs"] reports_update_fields [of c "dict_of kvs"]
    show ?thesis by (auto simp: reports_def err_locs_def)
  qed
qed


theorem UpdateUserBody_errors_witness:
  "\<exists>es. ValidationErr [\<lparr>eloc = [Key ''username''], etype = StringTooShort 2\<rparr>] = ValidationErr es \<and>
      es \<noteq> [] \<and>
      eloc ` set es \<subseteq> {[], [Key ''email''], [Key ''username''], [Key ''password''], [Key ''phoneNumber'']}"
proof -
  have "validate_UpdateUserBody sample_env (JObj [(''email'', JStr ''a@b''), (''username'', JStr ''b'')]) =
      Inl (ValidationErr [\<lparr>eloc = [Key ''username''], etype = StringTooShort 2\<rparr>])"
    by (simp add: validate_UpdateUserBody_def at_least_one_field_def update_fields_def eval_simps
        upd_email_field_def upd_username_field_def upd_password_field_def upd_phone_field_def)
  from UpdateUserBody_errors [OF this] show ?thesis by simp
qed

text \<open>C7. An optional field sent as \<open>null\<close> is the same as an absent
  one: adding \<open>"username": null\<close>, \<open>"password": null\<close> or
  \<open>"phoneNumber": null\<close> to an update body (after any earlier occurrence of
  the key) gives the result of the body without that key, both for the
  model validator, for which \<open>None\<close> is falsy, and for the field
  validators, which pass \<open>None\<close> through.\<close>

theorem UpdateUserBody_null_is_absent:
  assumes "k \<in> {''username'', ''password'', ''phoneNumber''}"
  shows "validate_UpdateUserBody c (JObj (kvs @ [(k, JNull)])) =
    validate_UpdateUserBody c (JObj (filter (\<lambda>p. fst p \<noteq> k) kvs))"
proof -
  have "update_fields c ((dict_of kvs)(k \<mapsto> JNull)) = update_fields c ((dict_of kvs)(k := None))"
    using assms
    by (elim insertE emptyE)
      (simp_all add: update_fields_def upd_email_field_def upd_username_field_def upd_password_field_def
        upd_phone_field_def optional_def required_def validate_username_upd_def validate_password_upd_def
        validate_phone_number_upd_def)
  then show ?thesis
    by (simp add: validate_UpdateUserBody_def at_least_one_field_def dict_of_filter as_model_def
        dict_get_null_absent)
qed

theorem UpdateUserBody_null_is_absent_witness:
  "validate_UpdateUserBody sample_env
     (JObj [(''email'', JStr ''a@b''), (''username'', JStr ''bob''), (''phoneNumber'', JStr ''+1''),
            (''phoneNumber'', JNull)]) =
   validate_UpdateUserBody sample_env (JObj [(''email'', JStr ''a@b''), (''username'', JStr ''bob'')])"
  using UpdateUserBody_null_is_absent [of "''phoneNumber''" sample_env
      "[(''email'', JStr ''a@b''), (''username'', JStr ''bob''), (''phoneNumber'', JStr ''+1'')]"]
  by simp

text \<open>C18. An empty string is absent for the model validator but present
  for the fields: once another field is given, an empty \<open>username\<close> is
  validated and rejected as too short, instead of being ignored.\<close>

theorem UpdateUserBody_empty_username:
  assumes "email_validate c e = Inr e'" "check_phone_number c ph = Inr ph'" "ph \<noteq> []"
  shows "validate_UpdateUserBody c
      (JObj [(''email'', JStr e), (''username'', JStr []), (''phoneNumber'', JStr ph)]) =
    Inl (ValidationErr [\<lparr>eloc = [Key ''username''], etype = StringTooShort 2\<rparr>])"
  using assms
  by (simp add: validate_UpdateUserBody_def at_least_one_field_def update_fields_def dict_of_def
      upd_email_field_def upd_username_field_def upd_password_field_def upd_phone_field_def
      optional_def str_len_def email_type_def validate_phone_number_upd_def err_at_def)

theorem UpdateUserBody_empty_username_witness:
  "validate_UpdateUserBody sample_env
      (JObj [(''email'', JStr ''a@b''), (''username'', JStr []), (''phoneNumber'', JStr ''+380'')]) =
    Inl (ValidationErr [\<lparr>eloc = [Key ''username''], etype = StringTooShort 2\<rparr>])"
  by (rule UpdateUserBody_empty_username) (simp_all add: sample_env_def)

text \<open>C11. Refinement of the specification's design: as long as the phone
  routine rejects the empty string, \<open>UpdateUserBody\<close>, which checks "at
  least one field" on the raw body before the fields are parsed, accepts
  exactly the bodies, with the same result, that the post-parse check
  \<open>update_post_parse\<close> accepts.\<close>

theorem UpdateUserBody_refines_post_parse:
  assumes "isl (check_phone_number c [])"
  shows "validate_UpdateUserBody c v = Inr b \<longleftrightarrow> update_post_parse c v = Inr b"
proof
  assume "validate_UpdateUserBody c v = Inr b"
  then obtain kvs where v: "v = JObj kvs"
    and t: "truthy (dict_get (dict_of kvs) ''username'') \<or> truthy (dict_get (dict_of kvs) ''password'') \<or>
            truthy (dict_get (dict_of kvs) ''phoneNumber'')"
    and f: "update_fields c (dict_of kvs) = Inr b"
    by (auto simp: validate_UpdateUserBody_Inr_iff)
  from f have u: "upd_username_field (dict_of kvs) = Inr (uu_username b)"
    and p: "upd_password_field (dict_of kvs) = Inr (uu_password b)"
    and ph: "upd_phone_field c (dict_of kvs) = Inr (uu_phoneNumber b)"
    by (simp_all add: update_fields_Inr_iff)
  have "uu_username b \<noteq> None \<or> uu_password b \<noteq> None \<or> uu_phoneNumber b \<noteq> None"
    using t optional_truthy [OF u [unfolded upd_username_field_def]]
      optional_truthy [OF p [unfolded upd_password_field_def]]
      optional_truthy [OF ph [unfolded upd_phone_field_def]]
    by auto
  with v f show "update_post_parse c v = Inr b" by (simp add: update_post_parse_def)
next
  assume "update_post_parse c v = Inr b"
  then obtain kvs where v: "v = JObj kvs" and f: "update_fields c (dict_of kvs) = Inr b"
    and n: "uu_username b \<noteq> None \<or> uu_password b \<noteq> None \<or> uu_phoneNumber b \<noteq> None"
    by (auto simp: update_post_parse_def as_model_def split: jval.splits sum.splits if_splits)
  from f have u: "upd_username_field (dict_of kvs) = Inr (uu_username b)"
    and p: "upd_password_field (dict_of kvs) = Inr (uu_password b)"
    and ph: "upd_phone_field c (dict_of kvs) = Inr (uu_phoneNumber b)"
    by (simp_all add: update_fields_Inr_iff)
  have "truthy (dict_get (dict_of kvs) ''username'') \<or> truthy (dict_get (dict_of kvs) ''password'') \<or>
        truthy (dict_get (dict_of kvs) ''phoneNumber'')"
    using n
  proof (elim disjE)
    assume "uu_username b \<noteq> None"
    with u show ?thesis unfolding upd_username_field_def
      by (auto intro!: optional_Some_truthy simp: str_len_def)
  next
    assume "uu_password b \<noteq> None"
    with p show ?thesis unfolding upd_password_field_def
      by (auto intro!: optional_Some_truthy simp: str_len_def)
  next
    assume "uu_phoneNumber b \<noteq> None"
    with ph assms show ?thesis unfolding upd_phone_field_def
      by (auto intro!: optional_Some_truthy simp: validate_phone_number_upd_def split: sum.splits)
  qed
  with v f show "validate_UpdateUserBody c v = Inr b"
    by (simp add: validate_UpdateUserBody_Inr_iff)
qed

theorem UpdateUserBody_refines_post_parse_witness:
  "validate_UpdateUserBody sample_env (JObj [(''email'', JStr ''a@b''), (''phoneNumber'', JStr ''+380'')]) =
     Inr \<lparr>uu_email = ''a@b'', uu_username = None, uu_password = None, uu_phoneNumber = Some ''+380''\<rparr> \<longleftrightarrow>
   update_post_parse sample_env (JObj [(''email'', JStr ''a@b''), (''phoneNumber'', JStr ''+380'')]) =
     Inr \<lparr>uu_email = ''a@b'', uu_username = None, uu_password = None, uu_phoneNumber = Some ''+380''\<rparr>"
  by (rule UpdateUserBody_refines_post_parse) (simp add: sample_env_def)

end
