(* ===== verification/Auth.thy ===== *)
theory Auth
  imports Schemas
begin

text \<open>
  The authentication schemas of \<open>schemas.py\<close> (lines 94--131): the Google
  OAuth callback body and response, the login body and response, and the
  logout and token refresh responses. \<open>LoginUserBody(LoginUser,
  PasswordSchema)\<close> has the fields of \<open>UserSchema\<close> and \<open>password\<close>, with
  its own copy of the username validator. \<open>CallbackGooglePublic\<close> and
  \<open>LoginUserPublic\<close> add no field to \<open>UserSchema\<close>.
\<close>

section \<open>Google OAuth callback\<close>

record callback_google_body =
  code :: string

definition validate_CallbackGoogleBody :: "jval \<Rightarrow> callback_google_body outcome" where
  "validate_CallbackGoogleBody v = to_outcome (as_model (\<lambda>d.
     map_sum id (\<lambda>s. \<lparr>code = s\<rparr>) (required d ''code'' (str_type ''code''))) v)"

definition validate_CallbackGooglePublic :: "env \<Rightarrow> jval \<Rightarrow> user_schema outcome" where
  "validate_CallbackGooglePublic c v = to_outcome (as_model (user_schema_fields c) v)"

section \<open>Login\<close>

record login_user_body =
  lb_username :: string
  lb_email :: string
  lb_password :: string

definition validate_LoginUserBody :: "env \<Rightarrow> jval \<Rightarrow> login_user_body outcome" where
  "validate_LoginUserBody c v = to_outcome (as_model (\<lambda>d.
     map_sum id (\<lambda>((p, u), e). \<lparr>lb_username = u, lb_email = e, lb_password = p\<rparr>)
       (both (both (sbind (password_field d) validate_password)
                   (sbind (username_field d) validate_username_login))
             (email_field c d))) v)"

definition validate_LoginUserPublic :: "env \<Rightarrow> jval \<Rightarrow> user_schema outcome" where
  "validate_LoginUserPublic c v = to_outcome (as_model (user_schema_fields c) v)"

section \<open>Logout and refresh\<close>

record logout_user_public =
  message :: string

definition validate_LogoutUserPublic :: "jval \<Rightarrow> logout_user_public outcome" where
  "validate_LogoutUserPublic v = to_outcome (as_model (\<lambda>d.
     map_sum id (\<lambda>s. \<lparr>message = s\<rparr>) (required d ''message'' (str_type ''message''))) v)"

record refresh_public =
  accessToken :: string

definition validate_RefreshPublic :: "jval \<Rightarrow> refresh_public outcome" where
  "validate_RefreshPublic v = to_outcome (as_model (\<lambda>d.
     map_sum id (\<lambda>s. \<lparr>accessToken = s\<rparr>) (required d ''accessToken'' (str_type ''accessToken''))) v)"

section \<open>Lemmas\<close>

lemma user_schema_eq_iff: "r = \<lparr>us_username = u, us_email = e\<rparr> \<longleftrightarrow> us_username r = u \<and> us_email r = e"
  by (cases r) auto

lemma both_keeps_last:
  "\<exists>es. to_outcome (map_sum id f (both X (Inl [e]))) = Inl (ValidationErr es) \<and> e \<in> set es"
  by (cases X) (auto simp: to_outcome_def)

section \<open>Properties\<close>

text \<open>C15. \<open>LoginUserBody\<close> validates exactly as the registration body
  \<open>UserBody\<close>: the same bodies are accepted with the same username, email and
  password, and the same errors are reported otherwise.\<close>

theorem login_equals_registration:
  "map_sum id (\<lambda>b. (lb_username b, lb_email b, lb_password b)) (validate_LoginUserBody c v) =
   map_sum id (\<lambda>b. (ub_username b, ub_email b, ub_password b)) (validate_UserBody c v)"
proof -
  have "validate_username_login = validate_username"
    by (simp add: fun_eq_iff validate_username_login_def validate_username_def)
  then show ?thesis
    by (cases v) (simp_all add: validate_LoginUserBody_def validate_UserBody_def as_model_def
        to_outcome_def sum.map_comp comp_def split_beta)
qed

theorem login_equals_registration_witness:
  "map_sum id (\<lambda>b. (lb_username b, lb_email b, lb_password b))
     (validate_LoginUserBody sample_env (JObj [(''username'', JStr ''bob''), (''password'', JStr ''x'')])) =
   map_sum id (\<lambda>b. (ub_username b, ub_email b, ub_password b))
     (validate_UserBody sample_env (JObj [(''username'', JStr ''bob''), (''password'', JStr ''x'')]))"
  by (rule login_equals_registration)

text \<open>C19. The login body requires an email: \<open>LoginUser\<close> inherits the
  required \<open>email\<close> of \<open>UserSchema\<close>, so a body with only username and
  password is rejected with a \<open>missing\<close> error at \<open>email\<close>.\<close>

theorem LoginUserBody_requires_email:
  assumes "dict_of kvs ''email'' = None"
  shows "\<exists>es. validate_LoginUserBody c (JObj kvs) = Inl (ValidationErr es) \<and>
    \<lparr>eloc = [Key ''email''], etype = Missing\<rparr> \<in> set es"
proof -
  have "email_field c (dict_of kvs) = Inl (err_at ''email'' Missing)"
    using assms by (simp add: email_field_def)
  then show ?thesis
    unfolding validate_LoginUserBody_def as_model_JObj err_at_def by (simp only: both_keeps_last)
qed

theorem LoginUserBody_requires_email_witness:
  "\<exists>es. validate_LoginUserBody sample_env
       (JObj [(''username'', JStr ''bob''), (''password'', JStr ''Secret1!'')]) = Inl (ValidationErr es) \<and>
     \<lparr>eloc = [Key ''email''], etype = Missing\<rparr> \<in> set es"
  by (rule LoginUserBody_requires_email) (simp add: dict_of_def)

text \<open>C26. The OAuth callback body accepts any string \<open>code\<close>, the empty
  one included, and keeps it unchanged.\<close>

theorem validate_CallbackGoogleBody_ok:
  "validate_CallbackGoogleBody v = Inr b \<longleftrightarrow>
     (\<exists>kvs. v = JObj kvs \<and> dict_of kvs ''code'' = Some (JStr (code b)))"
  by (cases b) (auto simp: validate_CallbackGoogleBody_def as_model_Inr_iff)

theorem validate_CallbackGoogleBody_ok_witness:
  "validate_CallbackGoogleBody (JObj [(''code'', JStr [])]) = Inr \<lparr>code = []\<rparr>"
  using validate_CallbackGoogleBody_ok [of "JObj [(''code'', JStr [])]" "\<lparr>code = []\<rparr>"]
  by (simp add: dict_of_def)

text \<open>C27. Every object that validates as a \<open>UserPublic\<close> also validates
  as a \<open>LoginUserPublic\<close> and as a \<open>CallbackGooglePublic\<close>, with the same
  username and email: the login and callback responses are projections of the
  public user.\<close>

theorem public_user_projections:
  assumes "validate_UserPublic c v = Inr u"
  shows "validate_LoginUserPublic c v = Inr \<lparr>us_username = up_username u, us_email = up_email u\<rparr> \<and>
    validate_CallbackGooglePublic c v = validate_LoginUserPublic c v"
  using assms
  by (auto simp: validate_UserPublic_def validate_LoginUserPublic_def validate_CallbackGooglePublic_def
      as_model_Inr_iff user_public_fields_def user_schema_fields_def user_schema_eq_iff)

theorem public_user_projections_witness:
  "validate_LoginUserPublic sample_env
     (JObj [(''username'', JStr ''ab''), (''email'', JStr ''a@b''), (''role'', JStr ''user'')]) =
     Inr \<lparr>us_username = ''ab'', us_email = ''a@b''\<rparr> \<and>
   validate_CallbackGooglePublic sample_env
     (JObj [(''username'', JStr ''ab''), (''email'', JStr ''a@b''), (''role'', JStr ''user'')]) =
   validate_LoginUserPublic sample_env
     (JObj [(''username'', JStr ''ab''), (''email'', JStr ''a@b''), (''role'', JStr ''user'')])"
proof -
  have "validate_UserPublic sample_env
      (JObj [(''username'', JStr ''ab''), (''email'', JStr ''a@b''), (''role'', JStr ''user'')]) =
    Inr \<lparr>up_username = ''ab'', up_email = ''a@b'', up_role = ''user'', up_phoneNumber = None\<rparr>"
    by (simp add: validate_UserPublic_def eval_simps)
  from public_user_projections [OF this] show ?thesis by simp
qed

text \<open>C29. The logout and refresh responses accept exactly an object with a
  string \<open>message\<close>, respectively \<open>accessToken\<close>, and keep it.\<close>

theorem token_responses_ok:
  "(validate_LogoutUserPublic v = Inr r \<longleftrightarrow>
      (\<exists>kvs. v = JObj kvs \<and> dict_of kvs ''message'' = Some (JStr (message r)))) \<and>
   (validate_RefreshPublic v = Inr t \<longleftrightarrow>
      (\<exists>kvs. v = JObj kvs \<and> dict_of kvs ''accessToken'' = Some (JStr (accessToken t))))"
  by (cases r; cases t) (auto simp: validate_LogoutUserPublic_def validate_RefreshPublic_def as_model_Inr_iff)

theorem token_responses_ok_witness:
  "validate_LogoutUserPublic (JObj [(''message'', JStr ''OK'')]) = Inr \<lparr>message = ''OK''\<rparr> \<and>
   validate_RefreshPublic (JObj [(''accessToken'', JStr ''t'')]) = Inr \<lparr>accessToken = ''t''\<rparr>"
  using token_responses_ok [of "JObj [(''message'', JStr ''OK'')]" "\<lparr>message = ''OK''\<rparr>"
      "\<lparr>accessToken = ''t''\<rparr>"]
    token_responses_ok [of "JObj [(''accessToken'', JStr ''t'')]" "\<lparr>message = ''OK''\<rparr>"
      "\<lparr>accessToken = ''t''\<rparr>"]
  by (simp add: dict_of_def)

end
