(* ===== verification/OpenAPI.thy ===== *)
theory OpenAPI
  imports Update Auth
begin

text \<open>
  The request schema that FastAPI publishes for the registration body
  (pydantic's \<open>model_json_schema\<close> of \<open>UserBody\<close>), with the \<open>examples\<close>
  of its field declarations. The schema describes the types and length
  constraints of the fields, not the field validators. The property shows
  that the example body the schema offers, built from the declared examples,
  conforms to the schema but is rejected by \<open>UserBody\<close>, because the declared
  password example \<open>12345678\<close> fails the password validator.
\<close>

datatype jschema =
    SStr "nat option" "nat option"
  | SNull
  | SEnum "string list"
  | SAnyOf "jschema list"
  | SArray jschema
  | SObj "(string \<times> jschema) list" "string list"

text \<open>Validation of a JSON value against a JSON Schema (draft 2020-12 as used by
  OpenAPI 3.1), for the keywords pydantic emits for these models:
  \<open>type\<close> with \<open>minLength\<close>/\<open>maxLength\<close> (counted in code points, as
  Python's \<open>len\<close>), \<open>null\<close>, \<open>enum\<close>, \<open>anyOf\<close>, arrays and objects with
  \<open>properties\<close> and \<open>required\<close>; further properties are allowed.\<close>

fun conforms :: "jschema \<Rightarrow> jval \<Rightarrow> bool" where
  "conforms (SStr lo hi) v =
     (case v of
        JStr s \<Rightarrow> (case lo of None \<Rightarrow> True | Some l \<Rightarrow> l \<le> length s) \<and>
                  (case hi of None \<Rightarrow> True | Some h \<Rightarrow> length s \<le> h)
      | _ \<Rightarrow> False)"
| "conforms SNull v = (v = JNull)"
| "conforms (SEnum vs) v = (case v of JStr s \<Rightarrow> s \<in> set vs | _ \<Rightarrow> False)"
| "conforms (SAnyOf ss) v = (\<exists>s\<in>set ss. conforms s v)"
| "conforms (SArray s) v = (case v of JList xs \<Rightarrow> (\<forall>x\<in>set xs. conforms s x) | _ \<Rightarrow> False)"
| "conforms (SObj ps req) v =
     (case v of
        JObj kvs \<Rightarrow> (\<forall>k\<in>set req. dict_of kvs k \<noteq> None) \<and>
                   (\<forall>p\<in>set ps. case dict_of kvs (fst p) of None \<Rightarrow> True | Some x \<Rightarrow> conforms (snd p) x)
      | _ \<Rightarrow> False)"

text \<open>The schemas pydantic publishes (\<open>model_json_schema\<close>) from the field
  declarations of \<open>schemas.py\<close>: a \<open>str\<close> with \<open>min_length\<close>/\<open>max_length\<close>
  is a string with \<open>minLength\<close>/\<open>maxLength\<close>, \<open>EmailStr\<close> a string
  (\<open>format: email\<close> is an annotation only), \<open>RoleEnum\<close> an \<open>enum\<close> of its
  values, \<open>Optional[str] = Field(None, ...)\<close> an \<open>anyOf\<close> of the string
  schema and \<open>null\<close>, not required. A field validator has no counterpart
  in the schema. The property lists follow the inheritance of the classes.\<close>

definition username_schema :: jschema where
  "username_schema = SStr (Some 2) (Some 25)"

definition email_schema :: jschema where
  "email_schema = SStr None None"

definition password_schema :: jschema where
  "password_schema = SStr (Some 8) (Some 64)"

definition UserSchema_props :: "(string \<times> jschema) list" where
  "UserSchema_props = [(''username'', username_schema), (''email'', email_schema)]"

definition PasswordSchema_props :: "(string \<times> jschema) list" where
  "PasswordSchema_props = [(''password'', password_schema)]"

definition UserBody_schema :: jschema where
  "UserBody_schema = SObj (UserSchema_props @ PasswordSchema_props) [''username'', ''email'', ''password'']"

text \<open>The \<open>examples\<close> of the \<open>Field\<close> declarations.\<close>

definition username_example :: string where
  "username_example = ''mister_business''"

definition email_example :: string where
  "email_example = ''mister_business@gmail.com''"

definition password_example :: string where
  "password_example = ''12345678''"

text \<open>The example request body the published schema of \<open>UserBody\<close> offers,
  assembled from the examples of its fields.\<close>

definition UserBody_example :: jval where
  "UserBody_example = JObj [(''username'', JStr username_example), (''email'', JStr email_example),
     (''password'', JStr password_example)]"

section \<open>Lemmas\<close>

lemmas schema_defs = UserBody_schema_def UserSchema_props_def PasswordSchema_props_def
  username_schema_def email_schema_def password_schema_def

section \<open>Properties\<close>

text \<open>C10. The example request body of the registration schema, made of the
  declared examples \<open>mister_business\<close>, \<open>mister_business@gmail.com\<close> and
  \<open>12345678\<close>, conforms to the published schema but is rejected by
  \<open>UserBody\<close>, with the password error only: the declared password example
  has no letter and no special character.\<close>

theorem UserBody_example_rejected:
  assumes "email_validate c email_example = Inr e"
  shows "conforms UserBody_schema UserBody_example \<and>
    validate_UserBody c UserBody_example =
      Inl (ValidationErr [\<lparr>eloc = [Key ''password''], etype = ValueError password_msg\<rparr>])"
  using assms
  by (simp add: UserBody_example_def username_example_def email_example_def password_example_def
      schema_defs validate_UserBody_def eval_simps)

theorem UserBody_example_rejected_witness:
  "conforms UserBody_schema UserBody_example \<and>
    validate_UserBody sample_env UserBody_example =
      Inl (ValidationErr [\<lparr>eloc = [Key ''password''], etype = ValueError password_msg\<rparr>])"
  by (rule UserBody_example_rejected) (simp add: sample_env_def email_example_def)

end
