(* ===== verification/Errors.thy ===== *)
theory Errors
  imports Update Auth
begin

text \<open>
  How a \<open>ValidationError\<close> of the schemas reaches the client: pydantic's
  \<open>errors()\<close> turns every line error into a dictionary with the error type,
  the location and a message, from pydantic-core's message templates; the
  surrounding framework sends that list back. \<open>err_type_name\<close> and
  \<open>err_msg\<close> follow pydantic-core for the error types these schemas produce
  (a \<open>ValueError\<close> of a validator is shown as \<open>Value error, \<dots>\<close>; the custom
  \<open>value_error\<close> of \<open>EmailStr\<close> as its own text); \<open>validation_errors\<close> is
  \<open>errors()\<close> without the \<open>input\<close>, \<open>ctx\<close> and \<open>url\<close> entries. Numbers are
  printed in decimal by \<open>string_of_nat\<close>.

  The properties give the complete catalogue of messages each request body
  can be answered with: the specification's "fixed descriptive message" per
  rule, apart from the texts of the email and phone collaborators.
\<close>

definition digit_char :: "nat \<Rightarrow> char" where
  "digit_char d = ''0123456789'' ! d"

fun string_of_nat :: "nat \<Rightarrow> string" where
  "string_of_nat n = (if n < 10 then [digit_char n]
                      else string_of_nat (n div 10) @ [digit_char (n mod 10)])"

definition quoted :: "string \<Rightarrow> string" where
  "quoted s = [CHR 0x27] @ s @ [CHR 0x27]"

fun or_list :: "string list \<Rightarrow> string" where
  "or_list [] = []"
| "or_list [x] = x"
| "or_list [x, y] = x @ '' or '' @ y"
| "or_list (x # xs) = x @ '', '' @ or_list xs"

definition plural :: "nat \<Rightarrow> string" where
  "plural n = (if n = 1 then [] else ''s'')"

fun err_type_name :: "err_type \<Rightarrow> string" where
  "err_type_name Missing = ''missing''"
| "err_type_name ModelType = ''model_type''"
| "err_type_name StringType = ''string_type''"
| "err_type_name ListType = ''list_type''"
| "err_type_name (StringTooShort n) = ''string_too_short''"
| "err_type_name (StringTooLong n) = ''string_too_long''"
| "err_type_name (EnumErr vs) = ''enum''"
| "err_type_name (ValueError m) = ''value_error''"
| "err_type_name (CustomValueError m) = ''value_error''"

fun err_msg :: "string \<Rightarrow> err_type \<Rightarrow> string" where
  "err_msg cls Missing = ''Field required''"
| "err_msg cls ModelType = ''Input should be a valid dictionary or instance of '' @ cls"
| "err_msg cls StringType = ''Input should be a valid string''"
| "err_msg cls ListType = ''Input should be a valid list''"
| "err_msg cls (StringTooShort n) = ''String should have at least '' @ string_of_nat n @ '' character'' @ plural n"
| "err_msg cls (StringTooLong n) = ''String should have at most '' @ string_of_nat n @ '' character'' @ plural n"
| "err_msg cls (EnumErr vs) = ''Input should be '' @ or_list (map quoted vs)"
| "err_msg cls (ValueError m) = ''Value error, '' @ m"
| "err_msg cls (CustomValueError m) = m"

fun loc_json :: "loc_item \<Rightarrow> jval" where
  "loc_json (Key k) = JStr k"
| "loc_json (Idx i) = JNum (int i)"

definition error_dict :: "string \<Rightarrow> verr \<Rightarrow> jval" where
  "error_dict cls e = JObj [(''type'', JStr (err_type_name (etype e))),
     (''loc'', JList (map loc_json (eloc e))), (''msg'', JStr (err_msg cls (etype e)))]"

definition validation_errors :: "string \<Rightarrow> verr list \<Rightarrow> jval" where
  "validation_errors cls es = JList (map (error_dict cls) es)"

section \<open>Lemmas\<close>

lemma err_msg_in:
  "etype ` set es \<subseteq> T \<Longrightarrow> (\<And>t. t \<in> T \<Longrightarrow> err_msg cls t \<in> M) \<Longrightarrow>
     \<forall>e\<in>set es. err_msg cls (etype e) \<in> M"
  by blast

section \<open>Properties\<close>

text \<open>C13. Every message a rejected registration body is answered with comes
  from a fixed catalogue: the model-type message, the missing, string-type
  and length messages of the three fields (2 to 25 for the username, 8 to 64
  for the password), the two validator messages, and the email collaborator's
  reason.\<close>

theorem UserBody_messages:
  assumes "validate_UserBody c v = Inl (ValidationErr es)"
  shows "\<forall>e\<in>set es. err_msg ''UserBody'' (etype e) \<in>
    {''Input should be a valid dictionary or instance of UserBody'', ''Field required'',
     ''Input should be a valid string'', ''String should have at least 2 characters'',
     ''String should have at most 25 characters'', ''String should have at least 8 characters'',
     ''String should have at most 64 characters'', ''Value error, '' @ username_msg,
     ''Value error, '' @ password_msg} \<union> range (\<lambda>r. ''value is not a valid email address: '' @ r)"
  by (rule err_msg_in [OF UserBody_err_types [OF assms]])
    (elim insertE UnE rangeE emptyE CollectE exE conjE, simp_all add: plural_def digit_char_def)

theorem UserBody_messages_witness:
  "err_msg ''UserBody'' (StringTooShort 8) \<in>
    {''Input should be a valid dictionary or instance of UserBody'', ''Field required'',
     ''Input should be a valid string'', ''String should have at least 2 characters'',
     ''String should have at most 25 characters'', ''String should have at least 8 characters'',
     ''String should have at most 64 characters'', ''Value error, '' @ username_msg,
     ''Value error, '' @ password_msg} \<union> range (\<lambda>r. ''value is not a valid email address: '' @ r)"
proof -
  have "validate_UserBody sample_env
      (JObj [(''username'', JStr ''9lives''), (''email'', JStr ''a@b''), (''password'', JStr ''short'')]) =
    Inl (ValidationErr [\<lparr>eloc = [Key ''password''], etype = StringTooShort 8\<rparr>,
            \<lparr>eloc = [Key ''username''], etype = ValueError username_msg\<rparr>])"
    by (simp add: validate_UserBody_def eval_simps)
  from UserBody_messages [OF this] show ?thesis by simp
qed

text \<open>C25. Every message a rejected update body is answered with comes from a
  fixed catalogue: the "at least one field" message, the missing message of
  the email, the string-type and length messages of the fields, the two
  validator messages, the email collaborator's reason, and a message of the
  phone routine. The model-type message is not among them: a body that is not
  an object ends in \<open>AttributeError\<close> instead.\<close>

theorem UpdateUserBody_messages:
  assumes "validate_UpdateUserBody c v = Inl (ValidationErr es)"
  shows "\<forall>e\<in>set es. err_msg ''UpdateUserBody'' (etype e) \<in>
    {''Value error, '' @ at_least_one_msg, ''Field required'',
     ''Input should be a valid string'', ''String should have at least 2 characters'',
     ''String should have at most 25 characters'', ''String should have at least 8 characters'',
     ''String should have at most 64 characters'', ''Value error, '' @ username_msg,
     ''Value error, '' @ password_msg} \<union> range (\<lambda>r. ''value is not a valid email address: '' @ r) \<union>
    {''Value error, '' @ m |m. \<exists>p. check_phone_number c p = Inl m}"
  by (rule err_msg_in [OF UpdateUserBody_err_types [OF assms]])
    (elim insertE UnE rangeE emptyE CollectE exE conjE, simp_all add: plural_def digit_char_def, blast)

theorem UpdateUserBody_messages_witness:
  "err_msg ''UpdateUserBody'' (ValueError at_least_one_msg) \<in>
    {''Value error, '' @ at_least_one_msg, ''Field required'',
     ''Input should be a valid string'', ''String should have at least 2 characters'',
     ''String should have at most 25 characters'', ''String should have at least 8 characters'',
     ''String should have at most 64 characters'', ''Value error, '' @ username_msg,
     ''Value error, '' @ password_msg} \<union> range (\<lambda>r. ''value is not a valid email address: '' @ r) \<union>
    {''Value error, '' @ m |m. \<exists>p. check_phone_number sample_env p = Inl m}"
proof -
  have "validate_UpdateUserBody sample_env (JObj [(''email'', JStr ''a@b'')]) =
    Inl (ValidationErr [\<lparr>eloc = [], etype = ValueError at_least_one_msg\<rparr>])"
    by (simp add: validate_UpdateUserBody_def at_least_one_field_def dict_of_def)
  from UpdateUserBody_messages [OF this] show ?thesis by simp
qed

end
