(* ===== verification/Spec2Isabelle.thy ===== *)
theory Spec2Isabelle
  imports OpenAPI Errors
begin

text \<open>
  Verification of \<open>src/backend/src/schemas/user/schemas.py\<close>, the pydantic
  request and response schemas of the user and authentication endpoints.

  \<^bold>\<open>The program.\<close> The file declares schema classes built by inheritance
  from field groups (\<open>UserSchema\<close>: username and email; \<open>PasswordSchema\<close>:
  password) and attaches validators to them: two regular expressions checked
  with \<open>re.fullmatch\<close> (username and password), an optional phone number
  passed to \<open>check_phone_number\<close>, and a model-level check of
  \<open>UpdateUserBody\<close> that at least one optional field is given. pydantic
  runs these validators when a request body is parsed or a response is built.

  \<^bold>\<open>The theories.\<close>
  \<^item> \<open>Prelude\<close>: JSON values (what pydantic receives), Python truthiness,
    pydantic's line errors, the result type \<open>'a vresult\<close> and the
    combinators that validate fields in order and collect all their errors.
  \<^item> \<open>Regex\<close>: the fragment of Python's \<open>re\<close> the two patterns use, as an
    inductive matching relation over positions (so that \<open>^\<close>, \<open>$\<close> and
    lookahead are expressed as Python defines them), \<open>re.fullmatch\<close>, and a
    language semantics for the anchor-free fragment, proved equal to it.
  \<^item> \<open>Validators\<close>: the two patterns as regex terms, item by item, and the
    five \<open>field_validator\<close> methods; both patterns are proved equal to
    executable scanners, and each validator is characterised in plain terms.
  \<^item> \<open>Pydantic\<close>: field types and constraints (\<open>str\<close>, \<open>min_length\<close>,
    \<open>max_length\<close>, \<open>EmailStr\<close>, \<open>RoleEnum\<close>), required and optional
    fields, dict input; the collaborators outside the file (email-validator,
    \<open>check_phone_number\<close>, the values of \<open>RoleEnum\<close>, and the fields
    \<open>UsersPublic\<close> inherits from \<open>PaginationSchema\<close>, \<open>page_fields\<close>) are
    the parameter \<open>env\<close> of every schema validator.
  \<^item> \<open>Schemas\<close>: \<open>UserSchema\<close>, \<open>PasswordSchema\<close>, \<open>UserBody\<close>
    (registration, \<open>validate_UserBody\<close>), \<open>UserPublic\<close> (\<open>validate_UserPublic\<close>
    and its serialisation \<open>dump_UserPublic\<close>) and \<open>UsersPublic\<close>
    (\<open>validate_UsersPublic\<close>: the inherited page fields, validated first,
    then the list \<open>data\<close>, item by item by \<open>user_list\<close>), lines 13--54
    of the source.
  \<^item> \<open>Update\<close>: \<open>UpdateUserBody\<close> (lines 57--91): the before-validator
    \<open>at_least_one_field\<close> on the raw body, then the four fields
    (\<open>update_fields\<close>) with the three field validators; \<open>validate_UpdateUserBody\<close>
    composes them as pydantic does. \<open>update_post_parse\<close> is the
    specification's design (the rule checked once, after parsing), not code.
  \<^item> \<open>Auth\<close>: \<open>CallbackGoogleBody\<close>, \<open>CallbackGooglePublic\<close>,
    \<open>LoginUserBody\<close>, \<open>LoginUserPublic\<close>, \<open>LogoutUserPublic\<close> and
    \<open>RefreshPublic\<close> (lines 94--131).
  \<^item> \<open>OpenAPI\<close>: the JSON Schema pydantic publishes for the registration
    body, derived from the \<open>Field\<close> declarations (\<open>username_schema\<close>,
    \<open>UserBody_schema\<close>, ...), JSON Schema validation (\<open>conforms\<close>) for
    the keywords it uses, and the declared \<open>examples\<close> of its fields.
  \<^item> \<open>Errors\<close>: the entries \<open>type\<close>, \<open>loc\<close> and \<open>msg\<close> of pydantic's
    \<open>ValidationError.errors()\<close>, from pydantic-core's message templates
    (\<open>err_type_name\<close>, \<open>err_msg\<close>, \<open>validation_errors\<close>), and the catalogue
    of messages each request body can be answered with.
  \<^item> this theory: properties that span schemas, the round trips from a
    registration to the public user and from a public user through its
    serialisation back.

  Every \<open>validate_X\<close> returns \<open>'a outcome\<close>: \<open>Inr\<close> the instance, or
  \<open>Inl\<close> the exception \<open>model_validate\<close> raises (\<open>ValidationErr\<close> with its
  list of line errors, each a location and an error type, or
  \<open>AttributeErr\<close>, which pydantic lets escape).

  \<^bold>\<open>What is proved.\<close> For each validator: an exact characterisation of
  the accepted inputs and the resulting instance (\<open>_ok\<close>, \<open>_spec\<close>,
  \<open>_single_field\<close>), the shape of the errors of rejected inputs (non-empty,
  located at the body or at a field; \<open>_errors\<close>), the order in which checks
  fire (length before pattern), equivalence of the validators the source
  repeats (\<open>field_validator_copies_agree\<close>, \<open>login_equals_registration\<close>),
  safety facts (no password in the public user, every accepted update sets a
  field and is as strict as registration), the two round trips, the order of
  the errors of a page (the page fields' errors, then the items' errors,
  item by item, exactly the invalid items), the treatment of \<open>null\<close> and
  of empty strings in an update, the rejection of the documented example
  registration body, the complete catalogue of error messages of the registration and update
  bodies, and the refinement of the specification's post-parse "at least
  one field" rule by the code's pre-parse check. The
  collaborators are parameters; where a property needs more of them than their
  types (idempotent email normalisation) it is a hypothesis, and the witnesses
  instantiate them with \<open>Pydantic.sample_env\<close>.

  \<^bold>\<open>Findings.\<close> On a body that is not a JSON object \<open>UpdateUserBody\<close>
  raises \<open>AttributeError\<close> (its before-validator calls \<open>self.get\<close>) instead
  of a validation error (\<open>Update.UpdateUserBody_non_object\<close>); the login body
  requires an email, inherited from \<open>UserSchema\<close>
  (\<open>Auth.LoginUserBody_requires_email\<close>); registration ignores a phone
  number, its field being commented out (\<open>Schemas.UserBody_ignores_phone\<close>);
  an update whose only optional field is an empty string or \<open>null\<close> is
  rejected (\<open>Update.UpdateUserBody_needs_one\<close>), while with another field
  given an empty username is validated and rejected as too short
  (\<open>Update.UpdateUserBody_empty_username\<close>), unlike \<open>null\<close>, which is
  the same as an absent key (\<open>Update.UpdateUserBody_null_is_absent\<close>).
  The declared password example \<open>12345678\<close> fails the password validator,
  so the documented example registration body is rejected
  (\<open>OpenAPI.UserBody_example_rejected\<close>); the published schemas carry none
  of the field validators. The pre-parse and post-parse forms of the update
  rule agree only when the phone routine rejects the empty string
  (a hypothesis of \<open>Update.UpdateUserBody_refines_post_parse\<close>).

  \<^bold>\<open>Modelling choices.\<close> Python strings are HOL strings, whose characters are
  the code points 0 to 255; the claims are about that range (in it, Python's
  \<open>\d\<close> is \<open>[0-9]\<close>). No loop of the program needs fuel: every definition
  is structurally recursive or non-recursive. \<open>re.fullmatch\<close> is an
  inductive relation over positions, proved equal to two linear scanners for
  the two patterns of the file; CPython's backtracking engine itself is not
  modelled.

  \<^bold>\<open>Not modelled.\<close> The base classes \<open>Schema\<close>, \<open>PublicSchema\<close> and
  \<open>PaginationSchema\<close>, \<open>RoleEnum\<close> and \<open>check_phone_number\<close> are in
  modules outside the staged sources; \<open>Schema\<close> and \<open>PublicSchema\<close> are assumed to
  add no field; the fields of \<open>PaginationSchema\<close>, whose names and types
  the sources do not show, enter as the validator \<open>page_fields\<close> of the
  parameter \<open>env\<close>, as do the other collaborators. Pydantic's handling of non-JSON Python objects, \<open>from_attributes\<close>,
  and field metadata beyond the published schemas are not modelled.
  Of pydantic's error report, the \<open>input\<close>, \<open>ctx\<close> and \<open>url\<close> entries
  and the framework's wrapping into an HTTP 422 response are not modelled;
  the examples of \<open>role\<close> (a \<open>RoleEnum\<close> member) and \<open>phoneNumber\<close>
  depend on collaborators outside the sources. No property of liveness
  applies: every schema is a terminating pure function of its input, which
  the development proves by defining each as a total HOL function.

  \<^bold>\<open>Status.\<close> Every class and validator of \<open>schemas.py\<close> is modelled.
  What remains outside is outside the file: the base classes and
  \<open>PaginationSchema\<close> (whose page metadata is validated by the
  collaborator \<open>page_fields\<close>), \<open>RoleEnum\<close>, \<open>check_phone_number\<close> and the
  email-validator package, which enter as the parameter \<open>env\<close>.
\<close>

section \<open>Properties across components\<close>

lemma sample_env_email_idem:
  "email_validate sample_env e = Inr e' \<Longrightarrow> email_validate sample_env e' = Inr e'"
  by (simp add: sample_env_def split: if_splits)

text \<open>C6. Round trip from registration to the public projection: when a
  registration body validates, the user stored from it (its username and
  email, a role of \<open>RoleEnum\<close>, no phone number) validates as a
  \<open>UserPublic\<close> with the same username and email, provided that the email
  collaborator's normalisation is idempotent (as email-validator's is).\<close>

theorem registration_public_roundtrip:
  assumes "validate_UserBody c v = Inr b"
    and "\<And>e e'. email_validate c e = Inr e' \<Longrightarrow> email_validate c e' = Inr e'"
    and "r \<in> set (role_values c)"
  shows "validate_UserPublic c (JObj [(''username'', JStr (ub_username b)), (''email'', JStr (ub_email b)),
      (''role'', JStr r), (''phoneNumber'', JNull)]) =
    Inr \<lparr>up_username = ub_username b, up_email = ub_email b, up_role = r, up_phoneNumber = None\<rparr>"
proof -
  from validate_UserBody_Inr_dest [OF assms(1)] assms(2)
  have "2 \<le> length (ub_username b)" "length (ub_username b) \<le> 25"
    "email_validate c (ub_email b) = Inr (ub_email b)" by blast+
  with assms(3) show ?thesis
    by (simp add: validate_UserPublic_def as_model_def to_outcome_def user_public_fields_def
        username_field_def email_field_def required_def optional_def str_len_def email_type_def
        role_type_def dict_of_def)
qed

theorem registration_public_roundtrip_witness:
  "validate_UserPublic sample_env (JObj [(''username'', JStr ''mister_business''),
      (''email'', JStr ''mister_business@gmail.com''), (''role'', JStr ''user''), (''phoneNumber'', JNull)]) =
    Inr \<lparr>up_username = ''mister_business'', up_email = ''mister_business@gmail.com'', up_role = ''user'',
         up_phoneNumber = None\<rparr>"
proof -
  have ub: "validate_UserBody sample_env
     (JObj [(''username'', JStr ''mister_business''), (''email'', JStr ''mister_business@gmail.com''),
            (''password'', JStr ''Secret1!'')]) =
   Inr \<lparr>ub_username = ''mister_business'', ub_email = ''mister_business@gmail.com'',
        ub_password = ''Secret1!''\<rparr>"
    by (simp add: validate_UserBody_def eval_simps)
  have role: "''user'' \<in> set (role_values sample_env)" by (simp add: sample_env_def)
  from registration_public_roundtrip [OF ub sample_env_email_idem role] show ?thesis by simp
qed

text \<open>C28. Serialising a validated public user and validating the result
  gives the same user back (with an idempotent email normalisation): the
  response schema's \<open>model_dump\<close> and validation are inverse on valid users.\<close>

theorem UserPublic_dump_roundtrip:
  assumes "validate_UserPublic c v = Inr u"
    and "\<And>e e'. email_validate c e = Inr e' \<Longrightarrow> email_validate c e' = Inr e'"
  shows "validate_UserPublic c (dump_UserPublic u) = Inr u"
proof -
  from assms(1) have "2 \<le> length (up_username u)" "length (up_username u) \<le> 25"
    "\<exists>e. email_validate c e = Inr (up_email u)" "up_role u \<in> set (role_values c)"
    by (auto simp: validate_UserPublic_Inr_iff)
  with assms(2) show ?thesis
    by (auto simp: validate_UserPublic_Inr_iff dump_UserPublic_def dict_of_def split: option.splits)
qed

theorem UserPublic_dump_roundtrip_witness:
  "validate_UserPublic sample_env (dump_UserPublic
     \<lparr>up_username = ''ab'', up_email = ''a@b'', up_role = ''user'', up_phoneNumber = Some ''+1''\<rparr>) =
   Inr \<lparr>up_username = ''ab'', up_email = ''a@b'', up_role = ''user'', up_phoneNumber = Some ''+1''\<rparr>"
proof -
  have "validate_UserPublic sample_env (JObj [(''username'', JStr ''ab''), (''email'', JStr ''a@b''),
      (''role'', JStr ''user''), (''phoneNumber'', JStr ''+1'')]) =
    Inr \<lparr>up_username = ''ab'', up_email = ''a@b'', up_role = ''user'', up_phoneNumber = Some ''+1''\<rparr>"
    by (simp add: validate_UserPublic_def eval_simps)
  from UserPublic_dump_roundtrip [OF this sample_env_email_idem] show ?thesis .
qed

end
